theory Spec2Isabelle
  imports Main "HOL-Library.Sublist"
begin

section \<open>JavaScript values and objects\<close>

text \<open>
  The two enumerations come from the CloudWatch library the repository imports. The
  members listed are the four comparison operators and the four missing-data policies
  the specification names; the code only ever writes \<open>GREATER_THAN_THRESHOLD\<close>,
  \<open>MISSING\<close> and \<open>NOT_BREACHING\<close> itself.
\<close>

datatype ComparisonOperator =
    GREATER_THAN_THRESHOLD
  | GREATER_THAN_OR_EQUAL_TO_THRESHOLD
  | LESS_THAN_THRESHOLD
  | LESS_THAN_OR_EQUAL_TO_THRESHOLD

datatype TreatMissingData = BREACHING | NOT_BREACHING | IGNORE | MISSING

text \<open>
  A JavaScript \<open>number\<close> is represented by the values the properties below need: an
  integral value (printed in decimal, which is what JavaScript does below \<open>10^21\<close>),
  \<open>NaN\<close> and the two infinities. Fractional values are not represented.
\<close>

datatype number = Integral int | NaN | PosInfinity | NegInfinity

datatype jsvalue =
    Undefined
  | Null
  | Num number
  | Str string
  | Operator ComparisonOperator
  | MissingData TreatMissingData

text \<open>
  An object is a map from its own property names to their values. The object literal
  \<^verbatim>\<open>{a: x, ...props, b: y}\<close> is \<open>([a \<mapsto> x] ++ props)(b \<mapsto> y)\<close>: a later entry
  replaces an earlier one of the same name, and a spread copies every own property.
\<close>

type_synonym object = "string \<rightharpoonup> jsvalue"

definition read :: "object \<Rightarrow> string \<Rightarrow> jsvalue" where
  \<comment> \<open>the property read \<^verbatim>\<open>obj.k\<close>: a missing property reads as \<^verbatim>\<open>undefined\<close>\<close>
  "read obj k = (case obj k of None \<Rightarrow> Undefined | Some v \<Rightarrow> v)"

definition isNullish :: "jsvalue \<Rightarrow> bool" where
  "isNullish v = (v = Undefined \<or> v = Null)"

definition nullish :: "jsvalue \<Rightarrow> jsvalue \<Rightarrow> jsvalue" where
  \<comment> \<open>the operator \<^verbatim>\<open>a ?? b\<close>\<close>
  "nullish a b = (if isNullish a then b else a)"

definition optional :: "string option \<Rightarrow> jsvalue" where
  \<comment> \<open>an optional string parameter: \<^verbatim>\<open>undefined\<close> when the caller leaves it out\<close>
  "optional s = (case s of None \<Rightarrow> Undefined | Some v \<Rightarrow> Str v)"

fun digitsOf :: "nat \<Rightarrow> string" where
  "digitsOf n =
     (if n < 10 then [''0123456789'' ! n]
      else digitsOf (n div 10) @ [''0123456789'' ! (n mod 10)])"

declare digitsOf.simps [simp del]

fun numberToString :: "number \<Rightarrow> string" where
  "numberToString (Integral i) =
     (if i < 0 then ''-'' @ digitsOf (nat (- i)) else digitsOf (nat i))"
| "numberToString NaN = ''NaN''"
| "numberToString PosInfinity = ''Infinity''"
| "numberToString NegInfinity = ''-Infinity''"

fun toString :: "jsvalue \<Rightarrow> string" where
  \<comment> \<open>the conversion a template literal \<^verbatim>\<open>`${v}`\<close> applies; an enumeration member is
      the string the library gives it\<close>
  "toString Undefined = ''undefined''"
| "toString Null = ''null''"
| "toString (Num n) = numberToString n"
| "toString (Str s) = s"
| "toString (Operator GREATER_THAN_THRESHOLD) = ''GreaterThanThreshold''"
| "toString (Operator GREATER_THAN_OR_EQUAL_TO_THRESHOLD) = ''GreaterThanOrEqualToThreshold''"
| "toString (Operator LESS_THAN_THRESHOLD) = ''LessThanThreshold''"
| "toString (Operator LESS_THAN_OR_EQUAL_TO_THRESHOLD) = ''LessThanOrEqualToThreshold''"
| "toString (MissingData BREACHING) = ''breaching''"
| "toString (MissingData NOT_BREACHING) = ''notBreaching''"
| "toString (MissingData IGNORE) = ''ignore''"
| "toString (MissingData MISSING) = ''missing''"

section \<open>KinesisAlarmFactory\<close>

text \<open>
  Each operation of \<open>KinesisAlarmFactory\<close> builds one object literal and hands it, with
  the metric, to \<^verbatim>\<open>this.alarmFactory.addAlarm\<close>. The literal is a function of its own
  (\<open>...Props\<close>); the operation applies the factory's \<open>addAlarm\<close>, its first argument
  here, to it. The threshold interfaces extend \<open>CustomAlarmThreshold\<close>, whose declaration
  is not among the sources: \<open>props\<close> is therefore any object, and the operations read
  from it exactly the properties the code reads.
\<close>

definition iteratorMaxAgeAlarmProps :: "object \<Rightarrow> string option \<Rightarrow> object" where
  "iteratorMaxAgeAlarmProps props disambiguator =
     ([''treatMissingData'' \<mapsto>
         nullish (read props ''treatMissingDataOverride'') (MissingData MISSING),
       ''comparisonOperator'' \<mapsto>
         nullish (read props ''comparisonOperatorOverride'') (Operator GREATER_THAN_THRESHOLD)]
      ++ props)
     (''disambiguator'' \<mapsto> optional disambiguator,
      ''threshold'' \<mapsto> read props ''maxAgeInMillis'',
      ''alarmNameSuffix'' \<mapsto> Str ''Iterator-Age-Max'',
      ''alarmDescription'' \<mapsto> Str ''Iterator Max Age is too high.'',
      ''alarmDedupeStringSuffix'' \<mapsto> Str ''AnyDataStreamIteratorMaxAge'')"

definition addIteratorMaxAgeAlarm ::
  "('m \<Rightarrow> object \<Rightarrow> 'r) \<Rightarrow> 'm \<Rightarrow> object \<Rightarrow> string option \<Rightarrow> 'r" where
  "addIteratorMaxAgeAlarm addAlarm metric props disambiguator =
     addAlarm metric (iteratorMaxAgeAlarmProps props disambiguator)"

definition oldAgeOfRecordAlarmProps :: "object \<Rightarrow> string option \<Rightarrow> object" where
  "oldAgeOfRecordAlarmProps props disambiguator =
     ([''treatMissingData'' \<mapsto>
         nullish (read props ''treatMissingDataOverride'') (MissingData MISSING),
       ''comparisonOperator'' \<mapsto>
         nullish (read props ''comparisonOperatorOverride'') (Operator GREATER_THAN_THRESHOLD)]
      ++ props)
     (''disambiguator'' \<mapsto> optional disambiguator,
      ''threshold'' \<mapsto> read props ''ageOfRecordThreshold'',
      ''alarmNameSuffix'' \<mapsto> Str ''Record-Max-Age'',
      ''alarmDescription'' \<mapsto> Str ''Max Age of Record in firehose is too high.'',
      ''alarmDedupeStringSuffix'' \<mapsto> Str ''MaxAgeOfRecordExceededInDeliveryStream'')"

definition addOldAgeOfRecordAlarm ::
  "('m \<Rightarrow> object \<Rightarrow> 'r) \<Rightarrow> 'm \<Rightarrow> object \<Rightarrow> string option \<Rightarrow> 'r" where
  "addOldAgeOfRecordAlarm addAlarm metric props disambiguator =
     addAlarm metric (oldAgeOfRecordAlarmProps props disambiguator)"

definition putRecordsThrottledAlarmProps :: "object \<Rightarrow> string option \<Rightarrow> object" where
  "putRecordsThrottledAlarmProps props disambiguator =
     (let threshold = read props ''maxRecordsThrottledThreshold'' in
      ([''treatMissingData'' \<mapsto>
          nullish (read props ''treatMissingDataOverride'') (MissingData NOT_BREACHING),
        ''comparisonOperator'' \<mapsto>
          nullish (read props ''comparisonOperatorOverride'') (Operator GREATER_THAN_THRESHOLD)]
       ++ props)
      (''disambiguator'' \<mapsto> optional disambiguator,
       ''threshold'' \<mapsto> threshold,
       ''alarmNameSuffix'' \<mapsto> Str ''PutRecordsThrottled'',
       ''alarmDescription'' \<mapsto>
          Str (''Number of throttled PutRecords exceeded threshold of '' @ toString threshold),
       ''alarmDedupeStringSuffix'' \<mapsto> Str ''PutRecordsThrottled''))"

definition addPutRecordsThrottledAlarm ::
  "('m \<Rightarrow> object \<Rightarrow> 'r) \<Rightarrow> 'm \<Rightarrow> object \<Rightarrow> string option \<Rightarrow> 'r" where
  "addPutRecordsThrottledAlarm addAlarm metric props disambiguator =
     addAlarm metric (putRecordsThrottledAlarmProps props disambiguator)"

definition putRecordsFailedAlarmProps :: "object \<Rightarrow> string option \<Rightarrow> object" where
  "putRecordsFailedAlarmProps props disambiguator =
     (let threshold = read props ''maxRecordsFailedThreshold'' in
      ([''treatMissingData'' \<mapsto>
          nullish (read props ''treatMissingDataOverride'') (MissingData NOT_BREACHING),
        ''comparisonOperator'' \<mapsto>
          nullish (read props ''comparisonOperatorOverride'') (Operator GREATER_THAN_THRESHOLD)]
       ++ props)
      (''disambiguator'' \<mapsto> optional disambiguator,
       ''threshold'' \<mapsto> threshold,
       ''alarmNameSuffix'' \<mapsto> Str ''PutRecordsFailed'',
       ''alarmDescription'' \<mapsto>
          Str (''Number of failed PutRecords exceeded threshold of '' @ toString threshold),
       ''alarmDedupeStringSuffix'' \<mapsto> Str ''PutRecordsFailed''))"

definition addPutRecordsFailedAlarm ::
  "('m \<Rightarrow> object \<Rightarrow> 'r) \<Rightarrow> 'm \<Rightarrow> object \<Rightarrow> string option \<Rightarrow> 'r" where
  "addPutRecordsFailedAlarm addAlarm metric props disambiguator =
     addAlarm metric (putRecordsFailedAlarmProps props disambiguator)"

text \<open>
  The two provisioned-throughput operations declare \<^verbatim>\<open>disambiguator: string\<close>, with no
  question mark, and their literal has no \<open>alarmDedupeStringSuffix\<close> entry.
\<close>

definition provisionedReadThroughputExceededAlarmProps :: "object \<Rightarrow> string \<Rightarrow> object" where
  "provisionedReadThroughputExceededAlarmProps props disambiguator =
     (let threshold = read props ''maxRecordsThrottledThreshold'' in
      ([''treatMissingData'' \<mapsto>
          nullish (read props ''treatMissingDataOverride'') (MissingData NOT_BREACHING),
        ''comparisonOperator'' \<mapsto>
          nullish (read props ''comparisonOperatorOverride'') (Operator GREATER_THAN_THRESHOLD)]
       ++ props)
      (''disambiguator'' \<mapsto> Str disambiguator,
       ''threshold'' \<mapsto> threshold,
       ''alarmNameSuffix'' \<mapsto> Str ''ReadThroughputExceeded'',
       ''alarmDescription'' \<mapsto>
          Str (''Number of records resulting in read throughput capacity throttling reached the threshold of ''
               @ toString threshold @ ''.'')))"

definition addProvisionedReadThroughputExceededAlarm ::
  "('m \<Rightarrow> object \<Rightarrow> 'r) \<Rightarrow> 'm \<Rightarrow> object \<Rightarrow> string \<Rightarrow> 'r" where
  "addProvisionedReadThroughputExceededAlarm addAlarm metric props disambiguator =
     addAlarm metric (provisionedReadThroughputExceededAlarmProps props disambiguator)"

definition provisionedWriteThroughputExceededAlarmProps :: "object \<Rightarrow> string \<Rightarrow> object" where
  "provisionedWriteThroughputExceededAlarmProps props disambiguator =
     (let threshold = read props ''maxRecordsThrottledThreshold'' in
      ([''treatMissingData'' \<mapsto>
          nullish (read props ''treatMissingDataOverride'') (MissingData NOT_BREACHING),
        ''comparisonOperator'' \<mapsto>
          nullish (read props ''comparisonOperatorOverride'') (Operator GREATER_THAN_THRESHOLD)]
       ++ props)
      (''disambiguator'' \<mapsto> Str disambiguator,
       ''threshold'' \<mapsto> threshold,
       ''alarmNameSuffix'' \<mapsto> Str ''WriteThroughputExceeded'',
       ''alarmDescription'' \<mapsto>
          Str (''Number of records resulting in write throughput capacity throttling reached the threshold of ''
               @ toString threshold @ ''.'')))"

definition addProvisionedWriteThroughputExceededAlarm ::
  "('m \<Rightarrow> object \<Rightarrow> 'r) \<Rightarrow> 'm \<Rightarrow> object \<Rightarrow> string \<Rightarrow> 'r" where
  "addProvisionedWriteThroughputExceededAlarm addAlarm metric props disambiguator =
     addAlarm metric (provisionedWriteThroughputExceededAlarmProps props disambiguator)"

section \<open>The argument in the specification's words\<close>

text \<open>
  The specification describes each operation as supplying the alarm-kind constants (name
  suffix, description, default comparison operator, default missing-data policy, dedupe
  suffix), extracting the kind-specific threshold, and handing these with the
  Specification to the Alarm Factory. \<open>alarmPropsLiteral\<close> is that argument for given
  operator and policy entries; \<open>unresolvedWithConstants\<close> is the argument of an operation
  that resolves nothing itself: the entries are the kind's defaults, whatever the
  Specification's overrides are.
\<close>

definition alarmPropsLiteral ::
  "jsvalue \<Rightarrow> jsvalue \<Rightarrow> object \<Rightarrow> jsvalue \<Rightarrow> jsvalue \<Rightarrow> string \<Rightarrow> string \<Rightarrow> string option
     \<Rightarrow> object" where
  "alarmPropsLiteral policy operator props disambiguator threshold nameSuffix descr dedupeSuffix =
     (let common =
        ([''treatMissingData'' \<mapsto> policy, ''comparisonOperator'' \<mapsto> operator] ++ props)
        (''disambiguator'' \<mapsto> disambiguator,
         ''threshold'' \<mapsto> threshold,
         ''alarmNameSuffix'' \<mapsto> Str nameSuffix,
         ''alarmDescription'' \<mapsto> Str descr)
      in case dedupeSuffix of
           None \<Rightarrow> common
         | Some s \<Rightarrow> common(''alarmDedupeStringSuffix'' \<mapsto> Str s))"

definition unresolvedWithConstants ::
  "TreatMissingData \<Rightarrow> object \<Rightarrow> jsvalue \<Rightarrow> jsvalue \<Rightarrow> string \<Rightarrow> string \<Rightarrow> string option
     \<Rightarrow> object" where
  "unresolvedWithConstants kindPolicy props disambiguator threshold nameSuffix descr dedupeSuffix =
     alarmPropsLiteral (MissingData kindPolicy) (Operator GREATER_THAN_THRESHOLD)
       props disambiguator threshold nameSuffix descr dedupeSuffix"

definition noResolvedEntries :: "object \<Rightarrow> bool" where
  \<comment> \<open>\<open>comparisonOperator\<close> and \<open>treatMissingData\<close> are entries of the factory's argument;
      a Threshold Specification (an overrides-only interface) declares neither\<close>
  "noResolvedEntries props =
     (props ''comparisonOperator'' = None \<and> props ''treatMissingData'' = None)"

definition resolvesTo :: "object \<Rightarrow> string \<Rightarrow> jsvalue \<Rightarrow> jsvalue \<Rightarrow> bool" where
  \<comment> \<open>the entry \<open>field\<close> of the argument is the override when there is one, and the kind's
      default otherwise\<close>
  "resolvesTo arg field override kindDefault =
     (if isNullish override then arg field = Some kindDefault
      else arg field = Some override)"

definition resolvesOverrides :: "object \<Rightarrow> object \<Rightarrow> TreatMissingData \<Rightarrow> bool" where
  "resolvesOverrides props arg kindPolicy =
     (resolvesTo arg ''comparisonOperator'' (read props ''comparisonOperatorOverride'')
        (Operator GREATER_THAN_THRESHOLD) \<and>
      resolvesTo arg ''treatMissingData'' (read props ''treatMissingDataOverride'')
        (MissingData kindPolicy))"

definition handsOver ::
  "object \<Rightarrow> jsvalue \<Rightarrow> jsvalue \<Rightarrow> string \<Rightarrow> string \<Rightarrow> jsvalue option \<Rightarrow> bool" where
  \<comment> \<open>the entries of the argument that an operation writes after the spread\<close>
  "handsOver arg disambiguator threshold nameSuffix descr dedupeEntry =
     (arg ''disambiguator'' = Some disambiguator \<and>
      arg ''threshold'' = Some threshold \<and>
      arg ''alarmNameSuffix'' = Some (Str nameSuffix) \<and>
      arg ''alarmDescription'' = Some (Str descr) \<and>
      arg ''alarmDedupeStringSuffix'' = dedupeEntry)"

definition returnArgument :: "unit \<Rightarrow> object \<Rightarrow> object" where
  \<comment> \<open>an alarm factory that returns the argument it is given\<close>
  "returnArgument m arg = arg"

section \<open>The Alarm Factory\<close>

text \<open>
  \<open>AlarmFactory\<close> is a class of this repository that is not among the sources; only its
  caller \<open>KinesisAlarmFactory\<close> is. Its \<open>addAlarm\<close> is modelled from the specification's
  sections 3, 4.1 and 7. What the specification leaves open is a field of the factory:
  the identifier sanitizer of the destination scope, the valid range of a kind's
  threshold, the two engine-wide defaults, the label of the annotation and the dedupe
  scoping of the kinds for which the specification documents none. Evaluation
  periods and datapoints-to-alarm, which no property below reads, are left out. The scope
  is the list of the alarms registered with it, oldest first. The errors are the three
  kinds of section 7 (section 4.1 speaks of them together as a configuration error); a
  call returns the alarm or the error, and the scope after it.
\<close>

datatype error = InvalidThresholdError | DuplicateAlarmNameError | UnknownAlarmKindError

record Annotation =
  annotationValue :: number
  annotationLabel :: string

record 'm AlarmDefinition =
  metric :: 'm
  resolvedThreshold :: number
  resolvedComparisonOperator :: jsvalue
  resolvedMissingDataPolicy :: jsvalue
  name :: string
  description :: string
  dedupeKey :: string
  annotation :: Annotation

record AlarmFactory =
  namePrefix :: string
  sanitize :: "string \<Rightarrow> string"
  inRange :: "object \<Rightarrow> int \<Rightarrow> bool"
  engineComparisonOperator :: jsvalue
  engineMissingDataPolicy :: jsvalue
  labelOf :: "object \<Rightarrow> string"
  otherKindsAggregate :: "string \<Rightarrow> bool"

definition resolveName :: "AlarmFactory \<Rightarrow> object \<Rightarrow> string" where
  \<comment> \<open>Modelled from the spec: \<open>AlarmFactory\<close> is missing. Section 4.1: the name is
      \<^verbatim>\<open>{resourceHumanOrFallbackName}-{alarmNameSuffix}{-disambiguator if present}\<close>,
      sanitized; section 3: \<open>alarmNameOverride\<close> is a full replacement.\<close>
  "resolveName f spec =
     (if isNullish (read spec ''alarmNameOverride'')
      then sanitize f
             (namePrefix f @ ''-'' @ toString (read spec ''alarmNameSuffix'') @
              (if isNullish (read spec ''disambiguator'') then []
               else ''-'' @ toString (read spec ''disambiguator'')))
      else toString (read spec ''alarmNameOverride''))"

definition resolveDescription :: "object \<Rightarrow> string" where
  \<comment> \<open>Modelled from the spec: \<open>AlarmFactory\<close> is missing. Section 4.1: the kind's
      description with the threshold interpolated (the caller interpolates it), unless
      \<open>alarmDescriptionOverride\<close> is set.\<close>
  "resolveDescription spec =
     (if isNullish (read spec ''alarmDescriptionOverride'')
      then toString (read spec ''alarmDescription'')
      else toString (read spec ''alarmDescriptionOverride''))"

definition aggregatesAcrossResources :: "AlarmFactory \<Rightarrow> string \<Rightarrow> bool" where
  \<comment> \<open>Modelled from the spec: \<open>AlarmFactory\<close> is missing. The per-kind scoping of the
      dedupe key, the kind being named by its \<open>alarmNameSuffix\<close>. Section 8 documents
      put-records-throttled as aggregating across resources and delivery-freshness (old
      age of record) as resource-scoped; for every other kind the scoping is the
      factory's table.\<close>
  "aggregatesAcrossResources f kind =
     (if kind = ''PutRecordsThrottled'' then True
      else if kind = ''Record-Max-Age'' then False
      else otherKindsAggregate f kind)"

definition resolveDedupeKey :: "AlarmFactory \<Rightarrow> object \<Rightarrow> string" where
  \<comment> \<open>Modelled from the spec: \<open>AlarmFactory\<close> is missing. Section 4.1:
      \<open>alarmDedupeStringOverride\<close> if present, else the kind's \<open>alarmDedupeStringSuffix\<close>
      with no resource-specific component when the kind aggregates across resources
      (documented per kind), else \<^verbatim>\<open>{resourceName}-{alarmNameSuffix}\<close>.\<close>
  "resolveDedupeKey f spec =
     (if \<not> isNullish (read spec ''alarmDedupeStringOverride'')
      then toString (read spec ''alarmDedupeStringOverride'')
      else if aggregatesAcrossResources f (toString (read spec ''alarmNameSuffix'')) \<and>
              \<not> isNullish (read spec ''alarmDedupeStringSuffix'')
      then toString (read spec ''alarmDedupeStringSuffix'')
      else namePrefix f @ ''-'' @ toString (read spec ''alarmNameSuffix''))"

definition resolve :: "AlarmFactory \<Rightarrow> 'm \<Rightarrow> object \<Rightarrow> number \<Rightarrow> 'm AlarmDefinition" where
  \<comment> \<open>Modelled from the spec: \<open>AlarmFactory\<close> is missing. Section 4.1, the precedence
      order: the override of the Specification, else the kind's default supplied by the
      caller, else the engine's default.\<close>
  "resolve f m spec t =
     \<lparr> metric = m,
       resolvedThreshold = t,
       resolvedComparisonOperator =
         nullish (read spec ''comparisonOperatorOverride'')
           (nullish (read spec ''comparisonOperator'') (engineComparisonOperator f)),
       resolvedMissingDataPolicy =
         nullish (read spec ''treatMissingDataOverride'')
           (nullish (read spec ''treatMissingData'') (engineMissingDataPolicy f)),
       name = resolveName f spec,
       description = resolveDescription spec,
       dedupeKey = resolveDedupeKey f spec,
       annotation = \<lparr> annotationValue = t, annotationLabel = labelOf f spec \<rparr> \<rparr>"

definition AlarmFactory_addAlarm ::
  "AlarmFactory \<Rightarrow> 'm \<Rightarrow> object \<Rightarrow> 'm AlarmDefinition list
     \<Rightarrow> (error + 'm AlarmDefinition) \<times> 'm AlarmDefinition list" where
  \<comment> \<open>Modelled from the spec: \<open>AlarmFactory\<close> is missing. Section 7: a threshold that is
      missing, not finite or out of the kind's range fails at resolution time, before any
      registration; a name already registered in the scope fails; section 4.1: otherwise
      the alarm is registered with the scope and returned.\<close>
  "AlarmFactory_addAlarm f m spec scope =
     (case read spec ''threshold'' of
        Num (Integral t) \<Rightarrow>
          if \<not> inRange f spec t then (Inl InvalidThresholdError, scope)
          else
            (let alarm = resolve f m spec (Integral t) in
             if name alarm \<in> set (map name scope) then (Inl DuplicateAlarmNameError, scope)
             else (Inr alarm, scope @ [alarm]))
      | _ \<Rightarrow> (Inl InvalidThresholdError, scope))"

definition isFinite :: "jsvalue \<Rightarrow> bool" where
  \<comment> \<open>a number that is neither \<open>NaN\<close> nor an infinity; a missing threshold reads as
      \<^verbatim>\<open>undefined\<close>, which is not a number\<close>
  "isFinite v = (case v of Num (Integral t) \<Rightarrow> True | _ \<Rightarrow> False)"

definition noOverrides :: "object \<Rightarrow> bool" where
  "noOverrides props =
     (isNullish (read props ''comparisonOperatorOverride'') \<and>
      isNullish (read props ''treatMissingDataOverride'') \<and>
      isNullish (read props ''alarmNameOverride'') \<and>
      isNullish (read props ''alarmDescriptionOverride'') \<and>
      isNullish (read props ''alarmDedupeStringOverride''))"

definition keepName :: "string \<Rightarrow> string" where
  "keepName s = s"

definition nonNegative :: "object \<Rightarrow> int \<Rightarrow> bool" where
  "nonNegative spec t = (0 \<le> t)"

definition noOtherKind :: "string \<Rightarrow> bool" where
  "noOtherKind kind = False"

definition suffixLabel :: "object \<Rightarrow> string" where
  "suffixLabel spec = toString (read spec ''alarmNameSuffix'')"

definition exampleFactory :: "string \<Rightarrow> AlarmFactory" where
  \<comment> \<open>a factory for the examples: names pass the sanitizer unchanged, a threshold is in
      range when it is not negative, the annotation is labelled with the kind's suffix, and
      no kind aggregates but the one the specification documents\<close>
  "exampleFactory resourceName =
     \<lparr> namePrefix = resourceName,
       sanitize = keepName,
       inRange = nonNegative,
       engineComparisonOperator = Operator GREATER_THAN_OR_EQUAL_TO_THRESHOLD,
       engineMissingDataPolicy = MissingData MISSING,
       labelOf = suffixLabel,
       otherKindsAggregate = noOtherKind \<rparr>"

section \<open>KinesisFirehoseMonitoring\<close>

text \<open>
  The constructor of \<open>KinesisFirehoseMonitoring\<close>, from the creation of the two annotation
  arrays on. The alarm factory is the \<open>addAlarm\<close> function it is given, over any scope
  state \<open>'s\<close> and any error \<open>'e\<close>: a call returns the alarm or the error thrown, and the
  state after it. A \<^verbatim>\<open>Record<string, T>\<close> is the list of its entries in the order
  \<^verbatim>\<open>for ... in\<close> visits them, \<open>None\<close> when the property is left out. The two metrics are
  what the metric factory returned. The third component of the constructor's result lists
  the calls of \<^verbatim>\<open>consume\<close> it made, each with the consumer called and its argument.
\<close>

record 'm KinesisFirehoseMonitoring =
  recordCountAnnotations :: "Annotation list"
  ageAnnotations :: "Annotation list"
  throttledRecordsMetric :: 'm
  maxAgeofRecordsMetric :: 'm
  alarms :: "'m AlarmDefinition list"

record 'c KinesisFirehoseMonitoringProps =
  addDeliveryFreshnessAlarm :: "(string \<times> object) list option"
  addRecordsThrottledAlarm :: "(string \<times> object) list option"
  useCreatedAlarms :: "'c option"

definition entries :: "(string \<times> object) list option \<Rightarrow> (string \<times> object) list" where
  \<comment> \<open>\<^verbatim>\<open>for ... in\<close> over \<^verbatim>\<open>undefined\<close> visits nothing\<close>
  "entries r = (case r of None \<Rightarrow> [] | Some es \<Rightarrow> es)"

definition Monitoring_addAlarm ::
  "'m AlarmDefinition \<Rightarrow> 'm KinesisFirehoseMonitoring \<Rightarrow> 'm KinesisFirehoseMonitoring" where
  \<comment> \<open>Modelled from the spec: the base class \<open>Monitoring\<close> is missing. Section 4.3, step 4:
      registers the Alarm Definition with the unit's own created-alarms collection.\<close>
  "Monitoring_addAlarm alarm this = this\<lparr>alarms := alarms this @ [alarm]\<rparr>"

definition createdAlarms :: "'m KinesisFirehoseMonitoring \<Rightarrow> 'm AlarmDefinition list" where
  \<comment> \<open>Modelled from the spec: the base class \<open>Monitoring\<close> is missing. Section 6: a
      read-only \<open>createdAlarms()\<close>.\<close>
  "createdAlarms this = alarms this"

fun addRecordsThrottledAlarms ::
  "('m \<Rightarrow> object \<Rightarrow> 's \<Rightarrow> ('e + 'm AlarmDefinition) \<times> 's) \<Rightarrow> (string \<times> object) list
     \<Rightarrow> 'm KinesisFirehoseMonitoring \<Rightarrow> 's \<Rightarrow> ('e + 'm KinesisFirehoseMonitoring) \<times> 's" where
  "addRecordsThrottledAlarms addAlarm [] this s = (Inr this, s)"
| "addRecordsThrottledAlarms addAlarm ((disambiguator, alarmProps) # rest) this s =
     (case addPutRecordsThrottledAlarm addAlarm (throttledRecordsMetric this)
             alarmProps (Some disambiguator) s of
        (Inl e, s') \<Rightarrow> (Inl e, s')
      | (Inr createdAlarm, s') \<Rightarrow>
          addRecordsThrottledAlarms addAlarm rest
            (Monitoring_addAlarm createdAlarm
               (this\<lparr>recordCountAnnotations :=
                       recordCountAnnotations this @ [annotation createdAlarm]\<rparr>))
            s')"

fun addDeliveryFreshnessAlarms ::
  "('m \<Rightarrow> object \<Rightarrow> 's \<Rightarrow> ('e + 'm AlarmDefinition) \<times> 's) \<Rightarrow> (string \<times> object) list
     \<Rightarrow> 'm KinesisFirehoseMonitoring \<Rightarrow> 's \<Rightarrow> ('e + 'm KinesisFirehoseMonitoring) \<times> 's" where
  "addDeliveryFreshnessAlarms addAlarm [] this s = (Inr this, s)"
| "addDeliveryFreshnessAlarms addAlarm ((disambiguator, alarmProps) # rest) this s =
     (case addOldAgeOfRecordAlarm addAlarm (maxAgeofRecordsMetric this)
             alarmProps (Some disambiguator) s of
        (Inl e, s') \<Rightarrow> (Inl e, s')
      | (Inr createdAlarm, s') \<Rightarrow>
          addDeliveryFreshnessAlarms addAlarm rest
            (Monitoring_addAlarm createdAlarm
               (this\<lparr>ageAnnotations := ageAnnotations this @ [annotation createdAlarm]\<rparr>))
            s')"

definition KinesisFirehoseMonitoring_constructor ::
  "('m \<Rightarrow> object \<Rightarrow> 's \<Rightarrow> ('e + 'm AlarmDefinition) \<times> 's) \<Rightarrow> 'm \<Rightarrow> 'm
     \<Rightarrow> 'c KinesisFirehoseMonitoringProps \<Rightarrow> 's
     \<Rightarrow> ('e + 'm KinesisFirehoseMonitoring) \<times> 's \<times> ('c \<times> 'm AlarmDefinition list) list" where
  "KinesisFirehoseMonitoring_constructor addAlarm metricThrottledRecordCount metricDataFreshness
     props s =
     (let this = \<lparr> recordCountAnnotations = [], ageAnnotations = [],
                    throttledRecordsMetric = metricThrottledRecordCount,
                    maxAgeofRecordsMetric = metricDataFreshness,
                    alarms = [] \<rparr>
      in case addRecordsThrottledAlarms addAlarm (entries (addRecordsThrottledAlarm props)) this s of
           (Inl e, s1) \<Rightarrow> (Inl e, s1, [])
         | (Inr this1, s1) \<Rightarrow>
             (case addDeliveryFreshnessAlarms addAlarm (entries (addDeliveryFreshnessAlarm props))
                     this1 s1 of
                (Inl e, s2) \<Rightarrow> (Inl e, s2, [])
              | (Inr this2, s2) \<Rightarrow>
                  (Inr this2, s2,
                   case useCreatedAlarms props of
                     None \<Rightarrow> []
                   | Some consumer \<Rightarrow> [(consumer, createdAlarms this2)])))"

text \<open>
  Section 4.3 of the specification, steps 1 and 2, in its own words: iterate the entries in
  mapping order and invoke the operation for each, stopping at the first failure.
  \<open>inMappingOrder\<close> returns the alarms created, in that order.
\<close>

fun inMappingOrder ::
  "('a \<Rightarrow> 's \<Rightarrow> ('e + 'b) \<times> 's) \<Rightarrow> 'a list \<Rightarrow> 's \<Rightarrow> ('e + 'b list) \<times> 's" where
  "inMappingOrder create [] s = (Inr [], s)"
| "inMappingOrder create (x # xs) s =
     (case create x s of
        (Inl e, s') \<Rightarrow> (Inl e, s')
      | (Inr a, s') \<Rightarrow>
          (case inMappingOrder create xs s' of
             (Inl e, s'') \<Rightarrow> (Inl e, s'')
           | (Inr as, s'') \<Rightarrow> (Inr (a # as), s'')))"

definition throttledAlarm ::
  "('m \<Rightarrow> object \<Rightarrow> 's \<Rightarrow> ('e + 'm AlarmDefinition) \<times> 's) \<Rightarrow> 'm \<Rightarrow> string \<times> object
     \<Rightarrow> 's \<Rightarrow> ('e + 'm AlarmDefinition) \<times> 's" where
  "throttledAlarm addAlarm m entry =
     addPutRecordsThrottledAlarm addAlarm m (snd entry) (Some (fst entry))"

definition freshnessAlarm ::
  "('m \<Rightarrow> object \<Rightarrow> 's \<Rightarrow> ('e + 'm AlarmDefinition) \<times> 's) \<Rightarrow> 'm \<Rightarrow> string \<times> object
     \<Rightarrow> 's \<Rightarrow> ('e + 'm AlarmDefinition) \<times> 's" where
  "freshnessAlarm addAlarm m entry =
     addOldAgeOfRecordAlarm addAlarm m (snd entry) (Some (fst entry))"

text \<open>
  An example construction for resource \<open>OrdersStream\<close>: three records-throttled alarms with
  disambiguators \<open>a\<close>, \<open>b\<close>, \<open>c\<close> (thresholds 1, 2, 3) and one delivery-freshness alarm
  \<open>x\<close> (threshold 900).
\<close>

definition exampleProps :: "'c option \<Rightarrow> 'c KinesisFirehoseMonitoringProps" where
  "exampleProps consumer =
     \<lparr> addDeliveryFreshnessAlarm =
         Some [(''x'', [''ageOfRecordThreshold'' \<mapsto> Num (Integral 900)])],
       addRecordsThrottledAlarm =
         Some [(''a'', [''maxRecordsThrottledThreshold'' \<mapsto> Num (Integral 1)]),
               (''b'', [''maxRecordsThrottledThreshold'' \<mapsto> Num (Integral 2)]),
               (''c'', [''maxRecordsThrottledThreshold'' \<mapsto> Num (Integral 3)])],
       useCreatedAlarms = consumer \<rparr>"

definition exampleThrottled :: "string \<Rightarrow> int \<Rightarrow> unit AlarmDefinition" where
  "exampleThrottled d t =
     resolve (exampleFactory ''OrdersStream'') ()
       (putRecordsThrottledAlarmProps
          [''maxRecordsThrottledThreshold'' \<mapsto> Num (Integral t)] (Some d))
       (Integral t)"

definition exampleFreshness :: "string \<Rightarrow> int \<Rightarrow> unit AlarmDefinition" where
  "exampleFreshness d t =
     resolve (exampleFactory ''OrdersStream'') ()
       (oldAgeOfRecordAlarmProps [''ageOfRecordThreshold'' \<mapsto> Num (Integral t)] (Some d))
       (Integral t)"

section \<open>Properties of the argument handed to the Alarm Factory\<close>

text \<open>
  Every operation's literal has the shape of \<open>alarmPropsLiteral\<close>; the lookups of that
  shape are proved once.
\<close>

lemma literal_resolved:
  "alarmPropsLiteral p c props d t n e s ''treatMissingData'' =
     (case props ''treatMissingData'' of None \<Rightarrow> Some p | Some v \<Rightarrow> Some v)"
  "alarmPropsLiteral p c props d t n e s ''comparisonOperator'' =
     (case props ''comparisonOperator'' of None \<Rightarrow> Some c | Some v \<Rightarrow> Some v)"
  by (simp_all add: alarmPropsLiteral_def Let_def map_add_def split: option.split)

lemma literal_constants:
  "alarmPropsLiteral p c props d t n e s ''disambiguator'' = Some d"
  "alarmPropsLiteral p c props d t n e s ''threshold'' = Some t"
  "alarmPropsLiteral p c props d t n e s ''alarmNameSuffix'' = Some (Str n)"
  "alarmPropsLiteral p c props d t n e s ''alarmDescription'' = Some (Str e)"
  "alarmPropsLiteral p c props d t n e (Some x) ''alarmDedupeStringSuffix'' = Some (Str x)"
  "alarmPropsLiteral p c props d t n e None ''alarmDedupeStringSuffix'' =
     props ''alarmDedupeStringSuffix''"
  by (simp_all add: alarmPropsLiteral_def Let_def map_add_def split: option.split)

lemma literal_spread:
  "k \<notin> {''treatMissingData'', ''comparisonOperator'', ''disambiguator'', ''threshold'',
         ''alarmNameSuffix'', ''alarmDescription'', ''alarmDedupeStringSuffix''}
   \<Longrightarrow> alarmPropsLiteral p c props d t n e s k = props k"
  by (simp add: alarmPropsLiteral_def Let_def map_add_def split: option.split)

lemma iteratorMaxAge_literal:
  "iteratorMaxAgeAlarmProps props d =
     alarmPropsLiteral
       (nullish (read props ''treatMissingDataOverride'') (MissingData MISSING))
       (nullish (read props ''comparisonOperatorOverride'') (Operator GREATER_THAN_THRESHOLD))
       props (optional d) (read props ''maxAgeInMillis'')
       ''Iterator-Age-Max'' ''Iterator Max Age is too high.''
       (Some ''AnyDataStreamIteratorMaxAge'')"
  by (simp add: iteratorMaxAgeAlarmProps_def alarmPropsLiteral_def)

lemma oldAgeOfRecord_literal:
  "oldAgeOfRecordAlarmProps props d =
     alarmPropsLiteral
       (nullish (read props ''treatMissingDataOverride'') (MissingData MISSING))
       (nullish (read props ''comparisonOperatorOverride'') (Operator GREATER_THAN_THRESHOLD))
       props (optional d) (read props ''ageOfRecordThreshold'')
       ''Record-Max-Age'' ''Max Age of Record in firehose is too high.''
       (Some ''MaxAgeOfRecordExceededInDeliveryStream'')"
  by (simp add: oldAgeOfRecordAlarmProps_def alarmPropsLiteral_def)

lemma putRecordsThrottled_literal:
  "putRecordsThrottledAlarmProps props d =
     alarmPropsLiteral
       (nullish (read props ''treatMissingDataOverride'') (MissingData NOT_BREACHING))
       (nullish (read props ''comparisonOperatorOverride'') (Operator GREATER_THAN_THRESHOLD))
       props (optional d) (read props ''maxRecordsThrottledThreshold'')
       ''PutRecordsThrottled''
       (''Number of throttled PutRecords exceeded threshold of ''
          @ toString (read props ''maxRecordsThrottledThreshold''))
       (Some ''PutRecordsThrottled'')"
  by (simp add: putRecordsThrottledAlarmProps_def alarmPropsLiteral_def Let_def)

lemma putRecordsFailed_literal:
  "putRecordsFailedAlarmProps props d =
     alarmPropsLiteral
       (nullish (read props ''treatMissingDataOverride'') (MissingData NOT_BREACHING))
       (nullish (read props ''comparisonOperatorOverride'') (Operator GREATER_THAN_THRESHOLD))
       props (optional d) (read props ''maxRecordsFailedThreshold'')
       ''PutRecordsFailed''
       (''Number of failed PutRecords exceeded threshold of ''
          @ toString (read props ''maxRecordsFailedThreshold''))
       (Some ''PutRecordsFailed'')"
  by (simp add: putRecordsFailedAlarmProps_def alarmPropsLiteral_def Let_def)

lemma provisionedRead_literal:
  "provisionedReadThroughputExceededAlarmProps props d =
     alarmPropsLiteral
       (nullish (read props ''treatMissingDataOverride'') (MissingData NOT_BREACHING))
       (nullish (read props ''comparisonOperatorOverride'') (Operator GREATER_THAN_THRESHOLD))
       props (Str d) (read props ''maxRecordsThrottledThreshold'')
       ''ReadThroughputExceeded''
       (''Number of records resulting in read throughput capacity throttling reached the threshold of ''
          @ toString (read props ''maxRecordsThrottledThreshold'') @ ''.'')
       None"
  by (simp add: provisionedReadThroughputExceededAlarmProps_def alarmPropsLiteral_def Let_def)

lemma provisionedWrite_literal:
  "provisionedWriteThroughputExceededAlarmProps props d =
     alarmPropsLiteral
       (nullish (read props ''treatMissingDataOverride'') (MissingData NOT_BREACHING))
       (nullish (read props ''comparisonOperatorOverride'') (Operator GREATER_THAN_THRESHOLD))
       props (Str d) (read props ''maxRecordsThrottledThreshold'')
       ''WriteThroughputExceeded''
       (''Number of records resulting in write throughput capacity throttling reached the threshold of ''
          @ toString (read props ''maxRecordsThrottledThreshold'') @ ''.'')
       None"
  by (simp add: provisionedWriteThroughputExceededAlarmProps_def alarmPropsLiteral_def Let_def)

lemmas kinesis_literals =
  iteratorMaxAge_literal oldAgeOfRecord_literal putRecordsThrottled_literal
  putRecordsFailed_literal provisionedRead_literal provisionedWrite_literal

lemma literal_resolvesOverrides:
  "noResolvedEntries props \<Longrightarrow>
   resolvesOverrides props
     (alarmPropsLiteral
        (nullish (read props ''treatMissingDataOverride'') (MissingData k))
        (nullish (read props ''comparisonOperatorOverride'') (Operator GREATER_THAN_THRESHOLD))
        props d t n e s) k"
  by (simp add: noResolvedEntries_def resolvesOverrides_def resolvesTo_def literal_resolved
        nullish_def)

lemmas operation_defs =
  addIteratorMaxAgeAlarm_def addOldAgeOfRecordAlarm_def addPutRecordsThrottledAlarm_def
  addPutRecordsFailedAlarm_def addProvisionedReadThroughputExceededAlarm_def
  addProvisionedWriteThroughputExceededAlarm_def returnArgument_def

text \<open>
  Claim C1. Each of the six operations hands every alarm factory one argument, the one
  that a factory returning its argument gives back. For every Threshold Specification, the
  \<open>comparisonOperator\<close> entry of that argument is \<open>comparisonOperatorOverride\<close> when the
  Specification has one and \<open>GREATER_THAN_THRESHOLD\<close>, the kind's default, otherwise; the
  \<open>treatMissingData\<close> entry is \<open>treatMissingDataOverride\<close> when the Specification has one and
  the kind's default policy otherwise. The entry is always exactly one of the two, and the
  override wins.
\<close>

theorem override_precedence:
  assumes "noResolvedEntries props"
  shows "((addIteratorMaxAgeAlarm addAlarm m props d :: 'r) =
        addAlarm m (addIteratorMaxAgeAlarm returnArgument () props d) \<and>
      resolvesOverrides props (addIteratorMaxAgeAlarm returnArgument () props d) MISSING) \<and>
     ((addOldAgeOfRecordAlarm addAlarm m props d :: 'r) =
        addAlarm m (addOldAgeOfRecordAlarm returnArgument () props d) \<and>
      resolvesOverrides props (addOldAgeOfRecordAlarm returnArgument () props d) MISSING) \<and>
     ((addPutRecordsThrottledAlarm addAlarm m props d :: 'r) =
        addAlarm m (addPutRecordsThrottledAlarm returnArgument () props d) \<and>
      resolvesOverrides props (addPutRecordsThrottledAlarm returnArgument () props d) NOT_BREACHING) \<and>
     ((addPutRecordsFailedAlarm addAlarm m props d :: 'r) =
        addAlarm m (addPutRecordsFailedAlarm returnArgument () props d) \<and>
      resolvesOverrides props (addPutRecordsFailedAlarm returnArgument () props d) NOT_BREACHING) \<and>
     ((addProvisionedReadThroughputExceededAlarm addAlarm m props d' :: 'r) =
        addAlarm m (addProvisionedReadThroughputExceededAlarm returnArgument () props d') \<and>
      resolvesOverrides props (addProvisionedReadThroughputExceededAlarm returnArgument () props d') NOT_BREACHING) \<and>
     ((addProvisionedWriteThroughputExceededAlarm addAlarm m props d' :: 'r) =
        addAlarm m (addProvisionedWriteThroughputExceededAlarm returnArgument () props d') \<and>
      resolvesOverrides props (addProvisionedWriteThroughputExceededAlarm returnArgument () props d') NOT_BREACHING)"
  unfolding operation_defs kinesis_literals
  by (intro conjI refl literal_resolvesOverrides assms)

theorem override_precedence_witness:
  "noResolvedEntries
     [''maxAgeInMillis'' \<mapsto> Num (Integral 60000),
      ''comparisonOperatorOverride'' \<mapsto> Operator LESS_THAN_THRESHOLD] \<and>
   addIteratorMaxAgeAlarm returnArgument ()
     [''maxAgeInMillis'' \<mapsto> Num (Integral 60000),
      ''comparisonOperatorOverride'' \<mapsto> Operator LESS_THAN_THRESHOLD] None ''comparisonOperator''
     = Some (Operator LESS_THAN_THRESHOLD) \<and>
   addIteratorMaxAgeAlarm returnArgument ()
     [''maxAgeInMillis'' \<mapsto> Num (Integral 60000),
      ''comparisonOperatorOverride'' \<mapsto> Operator LESS_THAN_THRESHOLD] None ''treatMissingData''
     = Some (MissingData MISSING)"
proof -
  let ?p = "[''maxAgeInMillis'' \<mapsto> Num (Integral 60000),
      ''comparisonOperatorOverride'' \<mapsto> Operator LESS_THAN_THRESHOLD]"
  have h: "noResolvedEntries ?p"
    by (simp add: noResolvedEntries_def)
  from override_precedence [OF h, of returnArgument "()" None "''shard''"]
  have "resolvesOverrides ?p (addIteratorMaxAgeAlarm returnArgument () ?p None) MISSING"
    by blast
  then show ?thesis
    using h by (simp add: resolvesOverrides_def resolvesTo_def read_def isNullish_def)
qed

lemma literal_default_policy:
  "noResolvedEntries props \<Longrightarrow> isNullish (read props ''treatMissingDataOverride'') \<Longrightarrow>
   alarmPropsLiteral (nullish (read props ''treatMissingDataOverride'') (MissingData k))
     c props d t n e s ''treatMissingData'' = Some (MissingData k)"
  by (simp add: noResolvedEntries_def literal_resolved nullish_def)

text \<open>
  Claim C4. Each of the six operations hands every alarm factory one argument, the one
  that a factory returning its argument gives back. When the Specification has no
  \<open>treatMissingDataOverride\<close>, the missing-data policy in that argument is the kind's
  default: \<open>MISSING\<close> for the two age kinds (iterator max age, old age of record) and
  \<open>NOT_BREACHING\<close> for the four count kinds (records throttled, records failed, read and
  write throughput exceeded).
\<close>

theorem default_missing_data_policy:
  assumes "noResolvedEntries props"
    and "isNullish (read props ''treatMissingDataOverride'')"
  shows "((addIteratorMaxAgeAlarm addAlarm m props d :: 'r) =
        addAlarm m (addIteratorMaxAgeAlarm returnArgument () props d) \<and>
      addIteratorMaxAgeAlarm returnArgument () props d ''treatMissingData''
        = Some (MissingData MISSING)) \<and>
     ((addOldAgeOfRecordAlarm addAlarm m props d :: 'r) =
        addAlarm m (addOldAgeOfRecordAlarm returnArgument () props d) \<and>
      addOldAgeOfRecordAlarm returnArgument () props d ''treatMissingData''
        = Some (MissingData MISSING)) \<and>
     ((addPutRecordsThrottledAlarm addAlarm m props d :: 'r) =
        addAlarm m (addPutRecordsThrottledAlarm returnArgument () props d) \<and>
      addPutRecordsThrottledAlarm returnArgument () props d ''treatMissingData''
        = Some (MissingData NOT_BREACHING)) \<and>
     ((addPutRecordsFailedAlarm addAlarm m props d :: 'r) =
        addAlarm m (addPutRecordsFailedAlarm returnArgument () props d) \<and>
      addPutRecordsFailedAlarm returnArgument () props d ''treatMissingData''
        = Some (MissingData NOT_BREACHING)) \<and>
     ((addProvisionedReadThroughputExceededAlarm addAlarm m props d' :: 'r) =
        addAlarm m (addProvisionedReadThroughputExceededAlarm returnArgument () props d') \<and>
      addProvisionedReadThroughputExceededAlarm returnArgument () props d' ''treatMissingData''
        = Some (MissingData NOT_BREACHING)) \<and>
     ((addProvisionedWriteThroughputExceededAlarm addAlarm m props d' :: 'r) =
        addAlarm m (addProvisionedWriteThroughputExceededAlarm returnArgument () props d') \<and>
      addProvisionedWriteThroughputExceededAlarm returnArgument () props d' ''treatMissingData''
        = Some (MissingData NOT_BREACHING))"
  unfolding operation_defs kinesis_literals
  by (intro conjI refl literal_default_policy assms)

theorem default_missing_data_policy_witness:
  "noResolvedEntries [''ageOfRecordThreshold'' \<mapsto> Num (Integral 900)] \<and>
   isNullish (read [''ageOfRecordThreshold'' \<mapsto> Num (Integral 900)] ''treatMissingDataOverride'') \<and>
   addOldAgeOfRecordAlarm returnArgument () [''ageOfRecordThreshold'' \<mapsto> Num (Integral 900)]
     (Some ''a'') ''treatMissingData'' = Some (MissingData MISSING) \<and>
   addPutRecordsFailedAlarm returnArgument () [''ageOfRecordThreshold'' \<mapsto> Num (Integral 900)]
     (Some ''a'') ''treatMissingData'' = Some (MissingData NOT_BREACHING)"
proof -
  let ?p = "[''ageOfRecordThreshold'' \<mapsto> Num (Integral 900)]"
  have h1: "noResolvedEntries ?p"
    by (simp add: noResolvedEntries_def)
  have h2: "isNullish (read ?p ''treatMissingDataOverride'')"
    by (simp add: read_def isNullish_def)
  from default_missing_data_policy [OF h1 h2, of returnArgument "()" "Some ''a''" "''a''"] h1 h2
  show ?thesis by blast
qed

lemma literal_handsOver:
  "handsOver (alarmPropsLiteral p c props d t n e (Some x)) d t n e (Some (Str x))"
  "handsOver (alarmPropsLiteral p c props d t n e None) d t n e (props ''alarmDedupeStringSuffix'')"
  by (simp_all add: handsOver_def literal_constants)

text \<open>
  Claim C10, as amended. Each of the six operations hands every alarm factory one
  argument, the one that a factory returning its argument gives back. For every \<open>props\<close>
  object, whatever properties it carries, that argument has \<open>threshold\<close> equal to the
  kind-specific threshold property of \<open>props\<close>,
  \<open>disambiguator\<close> equal to the operation's parameter, and \<open>alarmNameSuffix\<close> and
  \<open>alarmDedupeStringSuffix\<close> equal to the operation's constants. \<open>alarmDescription\<close> is a
  constant for iterator max age and old age of record; for the other four operations it is
  the operation's fixed text with the kind-specific threshold interpolated, and depends on
  no other property. The two provisioned-throughput operations write no
  \<open>alarmDedupeStringSuffix\<close> entry (the argument has one only if \<open>props\<close> carries it) and
  their \<open>disambiguator\<close> parameter is a string, not an optional one.
\<close>

theorem kind_constants:
  "((addIteratorMaxAgeAlarm addAlarm m props d :: 'r) =
      addAlarm m (addIteratorMaxAgeAlarm returnArgument () props d)) \<and>
   handsOver (addIteratorMaxAgeAlarm returnArgument () props d)
     (optional d) (read props ''maxAgeInMillis'')
     ''Iterator-Age-Max'' ''Iterator Max Age is too high.''
     (Some (Str ''AnyDataStreamIteratorMaxAge'')) \<and>
   ((addOldAgeOfRecordAlarm addAlarm m props d :: 'r) =
      addAlarm m (addOldAgeOfRecordAlarm returnArgument () props d)) \<and>
   handsOver (addOldAgeOfRecordAlarm returnArgument () props d)
     (optional d) (read props ''ageOfRecordThreshold'')
     ''Record-Max-Age'' ''Max Age of Record in firehose is too high.''
     (Some (Str ''MaxAgeOfRecordExceededInDeliveryStream'')) \<and>
   ((addPutRecordsThrottledAlarm addAlarm m props d :: 'r) =
      addAlarm m (addPutRecordsThrottledAlarm returnArgument () props d)) \<and>
   handsOver (addPutRecordsThrottledAlarm returnArgument () props d)
     (optional d) (read props ''maxRecordsThrottledThreshold'')
     ''PutRecordsThrottled''
     (''Number of throttled PutRecords exceeded threshold of ''
        @ toString (read props ''maxRecordsThrottledThreshold''))
     (Some (Str ''PutRecordsThrottled'')) \<and>
   ((addPutRecordsFailedAlarm addAlarm m props d :: 'r) =
      addAlarm m (addPutRecordsFailedAlarm returnArgument () props d)) \<and>
   handsOver (addPutRecordsFailedAlarm returnArgument () props d)
     (optional d) (read props ''maxRecordsFailedThreshold'')
     ''PutRecordsFailed''
     (''Number of failed PutRecords exceeded threshold of ''
        @ toString (read props ''maxRecordsFailedThreshold''))
     (Some (Str ''PutRecordsFailed'')) \<and>
   ((addProvisionedReadThroughputExceededAlarm addAlarm m props d' :: 'r) =
      addAlarm m (addProvisionedReadThroughputExceededAlarm returnArgument () props d')) \<and>
   handsOver (addProvisionedReadThroughputExceededAlarm returnArgument () props d')
     (Str d') (read props ''maxRecordsThrottledThreshold'')
     ''ReadThroughputExceeded''
     (''Number of records resulting in read throughput capacity throttling reached the threshold of ''
        @ toString (read props ''maxRecordsThrottledThreshold'') @ ''.'')
     (props ''alarmDedupeStringSuffix'') \<and>
   ((addProvisionedWriteThroughputExceededAlarm addAlarm m props d' :: 'r) =
      addAlarm m (addProvisionedWriteThroughputExceededAlarm returnArgument () props d')) \<and>
   handsOver (addProvisionedWriteThroughputExceededAlarm returnArgument () props d')
     (Str d') (read props ''maxRecordsThrottledThreshold'')
     ''WriteThroughputExceeded''
     (''Number of records resulting in write throughput capacity throttling reached the threshold of ''
        @ toString (read props ''maxRecordsThrottledThreshold'') @ ''.'')
     (props ''alarmDedupeStringSuffix'')"
  unfolding operation_defs kinesis_literals
  by (intro conjI refl literal_handsOver)

text \<open>
  The claim as stated fails: the description that \<open>addPutRecordsThrottledAlarm\<close> hands to
  the factory changes with the \<open>maxRecordsThrottledThreshold\<close> property of \<open>props\<close>.
\<close>

theorem kind_constants_counterexample:
  "addPutRecordsThrottledAlarm returnArgument ()
     [''maxRecordsThrottledThreshold'' \<mapsto> Num (Integral 50)] None ''alarmDescription'' \<noteq>
   addPutRecordsThrottledAlarm returnArgument ()
     [''maxRecordsThrottledThreshold'' \<mapsto> Num (Integral 51)] None ''alarmDescription''"
  by (simp add: addPutRecordsThrottledAlarm_def returnArgument_def putRecordsThrottled_literal
        literal_constants read_def digitsOf.simps)

lemma literal_unresolved:
  "isNullish (read props ''treatMissingDataOverride'') \<Longrightarrow>
   isNullish (read props ''comparisonOperatorOverride'') \<Longrightarrow>
   alarmPropsLiteral
     (nullish (read props ''treatMissingDataOverride'') (MissingData k))
     (nullish (read props ''comparisonOperatorOverride'') (Operator GREATER_THAN_THRESHOLD))
     props d t n e s
   = unresolvedWithConstants k props d t n e s"
  by (simp add: unresolvedWithConstants_def nullish_def)

text \<open>
  Claim C3, as amended. Each operation resolves the two entries \<open>treatMissingData\<close> and
  \<open>comparisonOperator\<close> itself, as \<^verbatim>\<open>override ?? kind default\<close>, and delegates everything
  else: for every alarm factory its result is the factory's result on the argument made of
  the two resolved entries, the Specification and the kind constants. When the
  Specification has neither override, that argument is the unresolved Specification plus
  the kind constants.
\<close>

theorem delegation_with_resolved_entries:
  "addIteratorMaxAgeAlarm addAlarm m props d =
     addAlarm m
       (alarmPropsLiteral
          (nullish (read props ''treatMissingDataOverride'') (MissingData MISSING))
          (nullish (read props ''comparisonOperatorOverride'') (Operator GREATER_THAN_THRESHOLD))
          props (optional d) (read props ''maxAgeInMillis'')
          ''Iterator-Age-Max'' ''Iterator Max Age is too high.''
          (Some ''AnyDataStreamIteratorMaxAge'')) \<and>
   addOldAgeOfRecordAlarm addAlarm m props d =
     addAlarm m
       (alarmPropsLiteral
          (nullish (read props ''treatMissingDataOverride'') (MissingData MISSING))
          (nullish (read props ''comparisonOperatorOverride'') (Operator GREATER_THAN_THRESHOLD))
          props (optional d) (read props ''ageOfRecordThreshold'')
          ''Record-Max-Age'' ''Max Age of Record in firehose is too high.''
          (Some ''MaxAgeOfRecordExceededInDeliveryStream'')) \<and>
   addPutRecordsThrottledAlarm addAlarm m props d =
     addAlarm m
       (alarmPropsLiteral
          (nullish (read props ''treatMissingDataOverride'') (MissingData NOT_BREACHING))
          (nullish (read props ''comparisonOperatorOverride'') (Operator GREATER_THAN_THRESHOLD))
          props (optional d) (read props ''maxRecordsThrottledThreshold'')
          ''PutRecordsThrottled''
          (''Number of throttled PutRecords exceeded threshold of ''
             @ toString (read props ''maxRecordsThrottledThreshold''))
          (Some ''PutRecordsThrottled'')) \<and>
   addPutRecordsFailedAlarm addAlarm m props d =
     addAlarm m
       (alarmPropsLiteral
          (nullish (read props ''treatMissingDataOverride'') (MissingData NOT_BREACHING))
          (nullish (read props ''comparisonOperatorOverride'') (Operator GREATER_THAN_THRESHOLD))
          props (optional d) (read props ''maxRecordsFailedThreshold'')
          ''PutRecordsFailed''
          (''Number of failed PutRecords exceeded threshold of ''
             @ toString (read props ''maxRecordsFailedThreshold''))
          (Some ''PutRecordsFailed'')) \<and>
   addProvisionedReadThroughputExceededAlarm addAlarm m props d' =
     addAlarm m
       (alarmPropsLiteral
          (nullish (read props ''treatMissingDataOverride'') (MissingData NOT_BREACHING))
          (nullish (read props ''comparisonOperatorOverride'') (Operator GREATER_THAN_THRESHOLD))
          props (Str d') (read props ''maxRecordsThrottledThreshold'')
          ''ReadThroughputExceeded''
          (''Number of records resulting in read throughput capacity throttling reached the threshold of ''
             @ toString (read props ''maxRecordsThrottledThreshold'') @ ''.'')
          None) \<and>
   addProvisionedWriteThroughputExceededAlarm addAlarm m props d' =
     addAlarm m
       (alarmPropsLiteral
          (nullish (read props ''treatMissingDataOverride'') (MissingData NOT_BREACHING))
          (nullish (read props ''comparisonOperatorOverride'') (Operator GREATER_THAN_THRESHOLD))
          props (Str d') (read props ''maxRecordsThrottledThreshold'')
          ''WriteThroughputExceeded''
          (''Number of records resulting in write throughput capacity throttling reached the threshold of ''
             @ toString (read props ''maxRecordsThrottledThreshold'') @ ''.'')
          None) \<and>
   (isNullish (read props ''treatMissingDataOverride'') \<and>
    isNullish (read props ''comparisonOperatorOverride'') \<longrightarrow>
    alarmPropsLiteral
      (nullish (read props ''treatMissingDataOverride'') (MissingData k))
      (nullish (read props ''comparisonOperatorOverride'') (Operator GREATER_THAN_THRESHOLD))
      props dv t n e s
    = unresolvedWithConstants k props dv t n e s)"
  unfolding addIteratorMaxAgeAlarm_def addOldAgeOfRecordAlarm_def addPutRecordsThrottledAlarm_def
    addPutRecordsFailedAlarm_def addProvisionedReadThroughputExceededAlarm_def
    addProvisionedWriteThroughputExceededAlarm_def kinesis_literals
  by (intro conjI impI refl literal_unresolved) simp_all

theorem delegation_with_resolved_entries_witness:
  "isNullish (read [''maxRecordsThrottledThreshold'' \<mapsto> Num (Integral 50)]
                ''treatMissingDataOverride'') \<and>
   isNullish (read [''maxRecordsThrottledThreshold'' \<mapsto> Num (Integral 50)]
                ''comparisonOperatorOverride'') \<and>
   addPutRecordsThrottledAlarm returnArgument ()
     [''maxRecordsThrottledThreshold'' \<mapsto> Num (Integral 50)] None =
   unresolvedWithConstants NOT_BREACHING
     [''maxRecordsThrottledThreshold'' \<mapsto> Num (Integral 50)]
     Undefined (Num (Integral 50)) ''PutRecordsThrottled''
     ''Number of throttled PutRecords exceeded threshold of 50'' (Some ''PutRecordsThrottled'')"
proof -
  let ?p = "[''maxRecordsThrottledThreshold'' \<mapsto> Num (Integral 50)]"
  have h: "isNullish (read ?p ''treatMissingDataOverride'') \<and>
           isNullish (read ?p ''comparisonOperatorOverride'')"
    by (simp add: read_def isNullish_def)
  have t: "read ?p ''maxRecordsThrottledThreshold'' = Num (Integral 50)"
    by (simp add: read_def)
  have s: "''Number of throttled PutRecords exceeded threshold of '' @ toString (Num (Integral 50))
           = ''Number of throttled PutRecords exceeded threshold of 50''"
    by (simp add: digitsOf.simps)
  note claim = delegation_with_resolved_entries
         [of returnArgument "()" ?p None "''r''" NOT_BREACHING "optional None" "Num (Integral 50)"
             "''PutRecordsThrottled''" "''Number of throttled PutRecords exceeded threshold of 50''"
             "Some ''PutRecordsThrottled''"]
  from claim have e1:
    "addPutRecordsThrottledAlarm returnArgument () ?p None =
       returnArgument ()
         (alarmPropsLiteral
            (nullish (read ?p ''treatMissingDataOverride'') (MissingData NOT_BREACHING))
            (nullish (read ?p ''comparisonOperatorOverride'') (Operator GREATER_THAN_THRESHOLD))
            ?p (optional None) (read ?p ''maxRecordsThrottledThreshold'')
            ''PutRecordsThrottled''
            (''Number of throttled PutRecords exceeded threshold of ''
               @ toString (read ?p ''maxRecordsThrottledThreshold''))
            (Some ''PutRecordsThrottled''))"
    by blast
  from claim h have e2:
    "alarmPropsLiteral
       (nullish (read ?p ''treatMissingDataOverride'') (MissingData NOT_BREACHING))
       (nullish (read ?p ''comparisonOperatorOverride'') (Operator GREATER_THAN_THRESHOLD))
       ?p (optional None) (Num (Integral 50))
       ''PutRecordsThrottled'' ''Number of throttled PutRecords exceeded threshold of 50''
       (Some ''PutRecordsThrottled'')
     = unresolvedWithConstants NOT_BREACHING ?p (optional None) (Num (Integral 50))
         ''PutRecordsThrottled'' ''Number of throttled PutRecords exceeded threshold of 50''
         (Some ''PutRecordsThrottled'')"
    by blast
  have o: "optional None = Undefined"
    by (simp add: optional_def)
  show ?thesis
    using h e1 e2 unfolding t s o returnArgument_def by simp
qed

text \<open>
  The claim as stated fails: with a \<open>comparisonOperatorOverride\<close> the operation hands the
  factory an argument that differs from the unresolved Specification plus the kind
  constants, because it has resolved the operator itself. The factory here returns the
  argument it is given.
\<close>

theorem delegation_counterexample:
  "addPutRecordsThrottledAlarm returnArgument ()
     [''maxRecordsThrottledThreshold'' \<mapsto> Num (Integral 50),
      ''comparisonOperatorOverride'' \<mapsto> Operator LESS_THAN_THRESHOLD] None \<noteq>
   returnArgument ()
     (unresolvedWithConstants NOT_BREACHING
        [''maxRecordsThrottledThreshold'' \<mapsto> Num (Integral 50),
         ''comparisonOperatorOverride'' \<mapsto> Operator LESS_THAN_THRESHOLD]
        Undefined (Num (Integral 50)) ''PutRecordsThrottled''
        ''Number of throttled PutRecords exceeded threshold of 50'' (Some ''PutRecordsThrottled''))"
proof
  let ?p = "[''maxRecordsThrottledThreshold'' \<mapsto> Num (Integral 50),
             ''comparisonOperatorOverride'' \<mapsto> Operator LESS_THAN_THRESHOLD]"
  assume "addPutRecordsThrottledAlarm returnArgument () ?p None =
    returnArgument ()
      (unresolvedWithConstants NOT_BREACHING ?p
         Undefined (Num (Integral 50)) ''PutRecordsThrottled''
         ''Number of throttled PutRecords exceeded threshold of 50'' (Some ''PutRecordsThrottled''))"
  then have "putRecordsThrottledAlarmProps ?p None ''comparisonOperator'' =
    unresolvedWithConstants NOT_BREACHING ?p
         Undefined (Num (Integral 50)) ''PutRecordsThrottled''
         ''Number of throttled PutRecords exceeded threshold of 50'' (Some ''PutRecordsThrottled'')
      ''comparisonOperator''"
    by (simp add: addPutRecordsThrottledAlarm_def returnArgument_def)
  then show False
    by (simp add: putRecordsThrottled_literal unresolvedWithConstants_def literal_resolved
          read_def nullish_def isNullish_def)
qed

section \<open>Properties of the alarm the factory creates\<close>

lemma read_literal_constants:
  "read (alarmPropsLiteral p c props d t n e s) ''disambiguator'' = d"
  "read (alarmPropsLiteral p c props d t n e s) ''threshold'' = t"
  "read (alarmPropsLiteral p c props d t n e s) ''alarmNameSuffix'' = Str n"
  "read (alarmPropsLiteral p c props d t n e s) ''alarmDescription'' = Str e"
  "read (alarmPropsLiteral p c props d t n e (Some x)) ''alarmDedupeStringSuffix'' = Str x"
  by (simp_all add: read_def literal_constants)

lemma read_literal_overrides:
  "read (alarmPropsLiteral p c props d t n e s) ''comparisonOperatorOverride'' =
     read props ''comparisonOperatorOverride''"
  "read (alarmPropsLiteral p c props d t n e s) ''treatMissingDataOverride'' =
     read props ''treatMissingDataOverride''"
  "read (alarmPropsLiteral p c props d t n e s) ''alarmNameOverride'' =
     read props ''alarmNameOverride''"
  "read (alarmPropsLiteral p c props d t n e s) ''alarmDescriptionOverride'' =
     read props ''alarmDescriptionOverride''"
  "read (alarmPropsLiteral p c props d t n e s) ''alarmDedupeStringOverride'' =
     read props ''alarmDedupeStringOverride''"
  by (simp_all add: read_def literal_spread)

lemma read_literal_resolved:
  "noResolvedEntries props \<Longrightarrow>
   read (alarmPropsLiteral p c props d t n e s) ''treatMissingData'' = p"
  "noResolvedEntries props \<Longrightarrow>
   read (alarmPropsLiteral p c props d t n e s) ''comparisonOperator'' = c"
  by (simp_all add: read_def literal_resolved noResolvedEntries_def)

lemma resolveName_literal:
  "resolveName f (alarmPropsLiteral p c props d t n e s) =
     (if isNullish (read props ''alarmNameOverride'')
      then sanitize f (namePrefix f @ ''-'' @ n @
                       (if isNullish d then [] else ''-'' @ toString d))
      else toString (read props ''alarmNameOverride''))"
  by (simp add: resolveName_def read_literal_constants read_literal_overrides)

lemma resolveDescription_literal:
  "resolveDescription (alarmPropsLiteral p c props d t n e s) =
     (if isNullish (read props ''alarmDescriptionOverride'') then e
      else toString (read props ''alarmDescriptionOverride''))"
  by (simp add: resolveDescription_def read_literal_constants read_literal_overrides)

lemma resolveDedupeKey_literal:
  "resolveDedupeKey f (alarmPropsLiteral p c props d t n e (Some x)) =
     (if isNullish (read props ''alarmDedupeStringOverride'')
      then (if aggregatesAcrossResources f n then x else namePrefix f @ ''-'' @ n)
      else toString (read props ''alarmDedupeStringOverride''))"
  by (simp add: resolveDedupeKey_def read_literal_constants read_literal_overrides isNullish_def)

lemma addAlarm_Inr:
  assumes "AlarmFactory_addAlarm f m spec scope = (Inr a, scope')"
  shows "\<exists>t. read spec ''threshold'' = Num (Integral t) \<and> inRange f spec t \<and>
             a = resolve f m spec (Integral t) \<and> scope' = scope @ [a]"
  using assms
  by (auto simp: AlarmFactory_addAlarm_def Let_def
           split: jsvalue.splits number.splits if_splits)

lemma addAlarm_valid:
  assumes "read spec ''threshold'' = Num (Integral t)"
    and "inRange f spec t"
    and "name (resolve f m spec (Integral t)) \<notin> set (map name scope)"
  shows "AlarmFactory_addAlarm f m spec scope =
           (Inr (resolve f m spec (Integral t)), scope @ [resolve f m spec (Integral t)])"
  using assms by (simp add: AlarmFactory_addAlarm_def Let_def)

lemma addAlarm_invalid:
  assumes "\<not> isFinite (read spec ''threshold'')"
  shows "AlarmFactory_addAlarm f m spec scope = (Inl InvalidThresholdError, scope)"
  using assms
  by (simp add: AlarmFactory_addAlarm_def isFinite_def split: jsvalue.splits number.splits)

text \<open>
  Claim C5. A records-throttled Specification with \<open>maxRecordsThrottledThreshold = 50\<close> and
  no overrides, created without a disambiguator by the factory of resource
  \<open>OrdersStream\<close>, yields an alarm with operator \<open>GREATER_THAN_THRESHOLD\<close>, policy
  \<open>NOT_BREACHING\<close>, name \<open>OrdersStream-PutRecordsThrottled\<close>, a description that contains
  \<open>50\<close>, and dedupe key \<open>PutRecordsThrottled\<close>. The scope's sanitizer is assumed to leave
  that name as it is, its range to admit 50, and the name to be new in the scope.
\<close>

theorem end_to_end_records_throttled:
  assumes "read props ''maxRecordsThrottledThreshold'' = Num (Integral 50)"
    and "noOverrides props"
    and "noResolvedEntries props"
    and "namePrefix f = ''OrdersStream''"
    and "sanitize f ''OrdersStream-PutRecordsThrottled'' = ''OrdersStream-PutRecordsThrottled''"
    and "inRange f (putRecordsThrottledAlarmProps props None) 50"
    and "''OrdersStream-PutRecordsThrottled'' \<notin> set (map name scope)"
  shows "\<exists>alarm.
     addPutRecordsThrottledAlarm (AlarmFactory_addAlarm f) m props None scope
       = (Inr alarm, scope @ [alarm]) \<and>
     resolvedComparisonOperator alarm = Operator GREATER_THAN_THRESHOLD \<and>
     resolvedMissingDataPolicy alarm = MissingData NOT_BREACHING \<and>
     name alarm = ''OrdersStream-PutRecordsThrottled'' \<and>
     description alarm = ''Number of throttled PutRecords exceeded threshold of 50'' \<and>
     sublist ''50'' (description alarm) \<and>
     dedupeKey alarm = ''PutRecordsThrottled''"
proof -
  let ?spec = "putRecordsThrottledAlarmProps props None"
  let ?alarm = "resolve f m ?spec (Integral 50)"
  have ov: "isNullish (read props ''comparisonOperatorOverride'')"
    "isNullish (read props ''treatMissingDataOverride'')"
    "isNullish (read props ''alarmNameOverride'')"
    "isNullish (read props ''alarmDescriptionOverride'')"
    "isNullish (read props ''alarmDedupeStringOverride'')"
    using assms(2) by (simp_all add: noOverrides_def)
  have thr: "read ?spec ''threshold'' = Num (Integral 50)"
    by (simp add: putRecordsThrottled_literal read_literal_constants assms(1))
  have nm: "name ?alarm = ''OrdersStream-PutRecordsThrottled''"
    using ov(3) assms(4,5)
    by (simp add: resolve_def putRecordsThrottled_literal resolveName_literal optional_def
          isNullish_def)
  have ds: "description ?alarm = ''Number of throttled PutRecords exceeded threshold of 50''"
    using ov(4) assms(1)
    by (simp add: resolve_def putRecordsThrottled_literal resolveDescription_literal
          digitsOf.simps)
  have "sublist ''50'' (''Number of throttled PutRecords exceeded threshold of '' @ ''50'' @ [])"
    by (rule sublist_appendI)
  then have sub: "sublist ''50'' (description ?alarm)"
    by (simp add: ds)
  have dk: "dedupeKey ?alarm = ''PutRecordsThrottled''"
    using ov(5)
    by (simp add: resolve_def putRecordsThrottled_literal resolveDedupeKey_literal
          aggregatesAcrossResources_def)
  have op: "resolvedComparisonOperator ?alarm = Operator GREATER_THAN_THRESHOLD"
    using ov(1) assms(3)
    by (simp add: resolve_def putRecordsThrottled_literal read_literal_overrides
          read_literal_resolved nullish_def isNullish_def)
  have pol: "resolvedMissingDataPolicy ?alarm = MissingData NOT_BREACHING"
    using ov(2) assms(3)
    by (simp add: resolve_def putRecordsThrottled_literal read_literal_overrides
          read_literal_resolved nullish_def isNullish_def)
  have "AlarmFactory_addAlarm f m ?spec scope = (Inr ?alarm, scope @ [?alarm])"
    using thr assms(6,7) nm by (intro addAlarm_valid) simp_all
  then have "addPutRecordsThrottledAlarm (AlarmFactory_addAlarm f) m props None scope
       = (Inr ?alarm, scope @ [?alarm])"
    by (simp add: addPutRecordsThrottledAlarm_def)
  with op pol nm ds sub dk show ?thesis
    by blast
qed

lemma example_factory [simp]:
  "namePrefix (exampleFactory r) = r"
  "sanitize (exampleFactory r) s = s"
  "inRange (exampleFactory r) spec t = (0 \<le> t)"
  "labelOf (exampleFactory r) spec = toString (read spec ''alarmNameSuffix'')"
  by (simp_all add: exampleFactory_def keepName_def nonNegative_def suffixLabel_def)

theorem end_to_end_records_throttled_witness:
  "read [''maxRecordsThrottledThreshold'' \<mapsto> Num (Integral 50)] ''maxRecordsThrottledThreshold''
     = Num (Integral 50) \<and>
   noOverrides [''maxRecordsThrottledThreshold'' \<mapsto> Num (Integral 50)] \<and>
   noResolvedEntries [''maxRecordsThrottledThreshold'' \<mapsto> Num (Integral 50)] \<and>
   (\<exists>alarm.
      addPutRecordsThrottledAlarm (AlarmFactory_addAlarm (exampleFactory ''OrdersStream'')) ()
        [''maxRecordsThrottledThreshold'' \<mapsto> Num (Integral 50)] None []
        = (Inr alarm, [alarm]) \<and>
      name alarm = ''OrdersStream-PutRecordsThrottled'' \<and>
      dedupeKey alarm = ''PutRecordsThrottled'')"
proof -
  let ?p = "[''maxRecordsThrottledThreshold'' \<mapsto> Num (Integral 50)]"
  have h1: "read ?p ''maxRecordsThrottledThreshold'' = Num (Integral 50)"
    by (simp add: read_def)
  have h2: "noOverrides ?p"
    by (simp add: noOverrides_def read_def isNullish_def)
  have h3: "noResolvedEntries ?p"
    by (simp add: noResolvedEntries_def)
  have h4: "namePrefix (exampleFactory ''OrdersStream'') = ''OrdersStream''"
    by simp
  have h5: "sanitize (exampleFactory ''OrdersStream'') ''OrdersStream-PutRecordsThrottled''
              = ''OrdersStream-PutRecordsThrottled''"
    by simp
  have h6: "inRange (exampleFactory ''OrdersStream'') (putRecordsThrottledAlarmProps ?p None) 50"
    by simp
  have h7: "''OrdersStream-PutRecordsThrottled'' \<notin> set (map name ([] :: unit AlarmDefinition list))"
    by simp
  from end_to_end_records_throttled [OF h1 h2 h3 h4 h5 h6 h7, of "()"] h1 h2 h3
  show ?thesis
    by auto
qed

lemma read_concrete:
  "read (obj(k \<mapsto> v)) k' = (if k' = k then v else read obj k')"
  "read Map.empty k' = Undefined"
  by (simp_all add: read_def)

lemma throttled_created:
  assumes "addPutRecordsThrottledAlarm (AlarmFactory_addAlarm f) m props d scope = (Inr a, scope')"
  shows "\<exists>t. read props ''maxRecordsThrottledThreshold'' = Num (Integral t) \<and>
             a = resolve f m (putRecordsThrottledAlarmProps props d) (Integral t)"
  using addAlarm_Inr [OF assms [unfolded addPutRecordsThrottledAlarm_def]]
  by (auto simp: putRecordsThrottled_literal read_literal_constants)

lemma oldAgeOfRecord_created:
  assumes "addOldAgeOfRecordAlarm (AlarmFactory_addAlarm f) m props d scope = (Inr a, scope')"
  shows "\<exists>t. read props ''ageOfRecordThreshold'' = Num (Integral t) \<and>
             a = resolve f m (oldAgeOfRecordAlarmProps props d) (Integral t)"
  using addAlarm_Inr [OF assms [unfolded addOldAgeOfRecordAlarm_def]]
  by (auto simp: oldAgeOfRecord_literal read_literal_constants)

lemma throttled_dedupeKey:
  "isNullish (read props ''alarmDedupeStringOverride'') \<Longrightarrow>
   dedupeKey (resolve f m (putRecordsThrottledAlarmProps props d) t) = ''PutRecordsThrottled''"
  by (simp add: resolve_def putRecordsThrottled_literal resolveDedupeKey_literal
        aggregatesAcrossResources_def)

lemma oldAgeOfRecord_dedupeKey:
  "isNullish (read props ''alarmDedupeStringOverride'') \<Longrightarrow>
   dedupeKey (resolve f m (oldAgeOfRecordAlarmProps props d) t)
     = namePrefix f @ ''-Record-Max-Age''"
  by (simp add: resolve_def oldAgeOfRecord_literal resolveDedupeKey_literal
        aggregatesAcrossResources_def)

text \<open>
  Claim C2. With no dedupe override, two put-records-throttled alarms created by the
  factories of two different streams have the same dedupe key, \<open>PutRecordsThrottled\<close>,
  while two old-age-of-record (delivery-freshness) alarms created by the factories of two
  different streams have different dedupe keys, each scoped to its resource:
  \<^verbatim>\<open>{resourceName}-Record-Max-Age\<close>.
\<close>

theorem dedupe_grouping:
  assumes "addPutRecordsThrottledAlarm (AlarmFactory_addAlarm f1) m1 props1 d1 scope1
             = (Inr a1, scope1')"
    and "addPutRecordsThrottledAlarm (AlarmFactory_addAlarm f2) m2 props2 d2 scope2
             = (Inr a2, scope2')"
    and "addOldAgeOfRecordAlarm (AlarmFactory_addAlarm f1) m3 props3 d3 scope3
             = (Inr b1, scope3')"
    and "addOldAgeOfRecordAlarm (AlarmFactory_addAlarm f2) m4 props4 d4 scope4
             = (Inr b2, scope4')"
    and "isNullish (read props1 ''alarmDedupeStringOverride'')"
    and "isNullish (read props2 ''alarmDedupeStringOverride'')"
    and "isNullish (read props3 ''alarmDedupeStringOverride'')"
    and "isNullish (read props4 ''alarmDedupeStringOverride'')"
    and "namePrefix f1 \<noteq> namePrefix f2"
  shows "dedupeKey a1 = dedupeKey a2 \<and> dedupeKey a1 = ''PutRecordsThrottled'' \<and>
         dedupeKey b1 \<noteq> dedupeKey b2 \<and>
         dedupeKey b1 = namePrefix f1 @ ''-Record-Max-Age'' \<and>
         dedupeKey b2 = namePrefix f2 @ ''-Record-Max-Age''"
proof -
  from throttled_created [OF assms(1)] assms(5)
  have k1: "dedupeKey a1 = ''PutRecordsThrottled''"
    by (auto simp: throttled_dedupeKey)
  from throttled_created [OF assms(2)] assms(6)
  have k2: "dedupeKey a2 = ''PutRecordsThrottled''"
    by (auto simp: throttled_dedupeKey)
  from oldAgeOfRecord_created [OF assms(3)] assms(7)
  have k3: "dedupeKey b1 = namePrefix f1 @ ''-Record-Max-Age''"
    by (auto simp: oldAgeOfRecord_dedupeKey)
  from oldAgeOfRecord_created [OF assms(4)] assms(8)
  have k4: "dedupeKey b2 = namePrefix f2 @ ''-Record-Max-Age''"
    by (auto simp: oldAgeOfRecord_dedupeKey)
  from assms(9) have "namePrefix f1 @ ''-Record-Max-Age'' \<noteq> namePrefix f2 @ ''-Record-Max-Age''"
    by simp
  with k1 k2 k3 k4 show ?thesis
    by simp
qed

lemma example_throttled:
  "addPutRecordsThrottledAlarm (AlarmFactory_addAlarm (exampleFactory r)) ()
     [''maxRecordsThrottledThreshold'' \<mapsto> Num (Integral 50)] d []
   = (Inr (resolve (exampleFactory r) ()
             (putRecordsThrottledAlarmProps
                [''maxRecordsThrottledThreshold'' \<mapsto> Num (Integral 50)] d) (Integral 50)),
      [resolve (exampleFactory r) ()
         (putRecordsThrottledAlarmProps
            [''maxRecordsThrottledThreshold'' \<mapsto> Num (Integral 50)] d) (Integral 50)])"
  by (simp add: addPutRecordsThrottledAlarm_def AlarmFactory_addAlarm_def Let_def
        putRecordsThrottled_literal read_literal_constants read_concrete)

lemma example_oldAgeOfRecord:
  "addOldAgeOfRecordAlarm (AlarmFactory_addAlarm (exampleFactory r)) ()
     [''ageOfRecordThreshold'' \<mapsto> Num (Integral 900)] d []
   = (Inr (resolve (exampleFactory r) ()
             (oldAgeOfRecordAlarmProps
                [''ageOfRecordThreshold'' \<mapsto> Num (Integral 900)] d) (Integral 900)),
      [resolve (exampleFactory r) ()
         (oldAgeOfRecordAlarmProps
            [''ageOfRecordThreshold'' \<mapsto> Num (Integral 900)] d) (Integral 900)])"
  by (simp add: addOldAgeOfRecordAlarm_def AlarmFactory_addAlarm_def Let_def
        oldAgeOfRecord_literal read_literal_constants read_concrete)

theorem dedupe_grouping_witness:
  "isNullish (read [''maxRecordsThrottledThreshold'' \<mapsto> Num (Integral 50)]
                ''alarmDedupeStringOverride'') \<and>
   isNullish (read [''ageOfRecordThreshold'' \<mapsto> Num (Integral 900)]
                ''alarmDedupeStringOverride'') \<and>
   namePrefix (exampleFactory ''StreamA'') \<noteq> namePrefix (exampleFactory ''StreamB'') \<and>
   map_sum id dedupeKey
     (fst (addPutRecordsThrottledAlarm (AlarmFactory_addAlarm (exampleFactory ''StreamA'')) ()
             [''maxRecordsThrottledThreshold'' \<mapsto> Num (Integral 50)] (Some ''a'') []))
     = Inr ''PutRecordsThrottled'' \<and>
   map_sum id dedupeKey
     (fst (addPutRecordsThrottledAlarm (AlarmFactory_addAlarm (exampleFactory ''StreamB'')) ()
             [''maxRecordsThrottledThreshold'' \<mapsto> Num (Integral 50)] (Some ''a'') []))
     = Inr ''PutRecordsThrottled'' \<and>
   map_sum id dedupeKey
     (fst (addOldAgeOfRecordAlarm (AlarmFactory_addAlarm (exampleFactory ''StreamA'')) ()
             [''ageOfRecordThreshold'' \<mapsto> Num (Integral 900)] (Some ''a'') []))
     = Inr ''StreamA-Record-Max-Age'' \<and>
   map_sum id dedupeKey
     (fst (addOldAgeOfRecordAlarm (AlarmFactory_addAlarm (exampleFactory ''StreamB'')) ()
             [''ageOfRecordThreshold'' \<mapsto> Num (Integral 900)] (Some ''a'') []))
     = Inr ''StreamB-Record-Max-Age''"
proof -
  let ?p = "[''maxRecordsThrottledThreshold'' \<mapsto> Num (Integral 50)]"
  let ?q = "[''ageOfRecordThreshold'' \<mapsto> Num (Integral 900)]"
  have hp: "isNullish (read ?p ''alarmDedupeStringOverride'')"
    by (simp add: read_concrete isNullish_def)
  have hq: "isNullish (read ?q ''alarmDedupeStringOverride'')"
    by (simp add: read_concrete isNullish_def)
  have ne: "namePrefix (exampleFactory ''StreamA'') \<noteq> namePrefix (exampleFactory ''StreamB'')"
    by simp
  from dedupe_grouping
         [OF example_throttled [of "''StreamA''" "Some ''a''"]
             example_throttled [of "''StreamB''" "Some ''a''"]
             example_oldAgeOfRecord [of "''StreamA''" "Some ''a''"]
             example_oldAgeOfRecord [of "''StreamB''" "Some ''a''"]
             hp hp hq hq ne]
  have k: "dedupeKey (resolve (exampleFactory ''StreamA'') ()
                        (putRecordsThrottledAlarmProps ?p (Some ''a'')) (Integral 50))
             = ''PutRecordsThrottled''"
    "dedupeKey (resolve (exampleFactory ''StreamB'') ()
                  (putRecordsThrottledAlarmProps ?p (Some ''a'')) (Integral 50))
       = ''PutRecordsThrottled''"
    "dedupeKey (resolve (exampleFactory ''StreamA'') ()
                  (oldAgeOfRecordAlarmProps ?q (Some ''a'')) (Integral 900))
       = ''StreamA-Record-Max-Age''"
    "dedupeKey (resolve (exampleFactory ''StreamB'') ()
                  (oldAgeOfRecordAlarmProps ?q (Some ''a'')) (Integral 900))
       = ''StreamB-Record-Max-Age''"
    by auto
  show ?thesis
    using hp hq ne k by (simp add: example_throttled example_oldAgeOfRecord)
qed

lemma throttled_resolved_fields:
  "metric (resolve f m (putRecordsThrottledAlarmProps props d) t) = m"
  "resolvedThreshold (resolve f m (putRecordsThrottledAlarmProps props d) t) = t"
  "annotationValue (annotation (resolve f m (putRecordsThrottledAlarmProps props d) t)) = t"
  "description (resolve f m (putRecordsThrottledAlarmProps props d) t) =
     (if isNullish (read props ''alarmDescriptionOverride'')
      then ''Number of throttled PutRecords exceeded threshold of ''
             @ toString (read props ''maxRecordsThrottledThreshold'')
      else toString (read props ''alarmDescriptionOverride''))"
  "dedupeKey (resolve f m (putRecordsThrottledAlarmProps props d) t) =
     (if isNullish (read props ''alarmDedupeStringOverride'') then ''PutRecordsThrottled''
      else toString (read props ''alarmDedupeStringOverride''))"
  "name (resolve f m (putRecordsThrottledAlarmProps props d) t) =
     (if isNullish (read props ''alarmNameOverride'')
      then sanitize f (namePrefix f @ ''-PutRecordsThrottled'' @
                       (case d of None \<Rightarrow> [] | Some v \<Rightarrow> ''-'' @ v))
      else toString (read props ''alarmNameOverride''))"
  by (simp_all add: resolve_def putRecordsThrottled_literal resolveDescription_literal
        resolveDedupeKey_literal resolveName_literal optional_def isNullish_def
        aggregatesAcrossResources_def
      split: option.split)

lemma read_literal_entries:
  "read (alarmPropsLiteral p c props d t n e s) ''treatMissingData'' =
     (case props ''treatMissingData'' of None \<Rightarrow> p | Some v \<Rightarrow> v)"
  "read (alarmPropsLiteral p c props d t n e s) ''comparisonOperator'' =
     (case props ''comparisonOperator'' of None \<Rightarrow> c | Some v \<Rightarrow> v)"
  by (simp_all add: read_def literal_resolved split: option.split)

lemma throttled_resolved_entries:
  "resolvedComparisonOperator (resolve f m (putRecordsThrottledAlarmProps props (Some d)) t) =
   resolvedComparisonOperator (resolve f m (putRecordsThrottledAlarmProps props None) t)"
  "resolvedMissingDataPolicy (resolve f m (putRecordsThrottledAlarmProps props (Some d)) t) =
   resolvedMissingDataPolicy (resolve f m (putRecordsThrottledAlarmProps props None) t)"
  by (simp_all add: resolve_def putRecordsThrottled_literal read_literal_overrides
        read_literal_entries)

lemma exampleThrottled_fields [simp]:
  "name (exampleThrottled d t) = ''OrdersStream-PutRecordsThrottled-'' @ d"
  "annotationValue (annotation (exampleThrottled d t)) = Integral t"
  by (simp_all add: exampleThrottled_def throttled_resolved_fields read_concrete isNullish_def)

lemma exampleFreshness_fields [simp]:
  "name (exampleFreshness d t) = ''OrdersStream-Record-Max-Age-'' @ d"
  "annotationValue (annotation (exampleFreshness d t)) = Integral t"
  by (simp_all add: exampleFreshness_def resolve_def oldAgeOfRecord_literal resolveName_literal
        read_concrete isNullish_def optional_def)

text \<open>
  Claim C6, as amended. For a records-throttled Specification, the alarm created with a
  disambiguator \<open>d\<close> has the same metric, threshold, comparison operator, missing-data
  policy, description, dedupe key and annotation value as the alarm created without one.
  When the Specification has no \<open>alarmNameOverride\<close> (and the scope's sanitizer leaves both
  names as they are) its name is the other's name followed by \<open>-d\<close>; when it has one, both
  alarms bear the override as their name.
\<close>

theorem disambiguator_changes_name_only:
  assumes "addPutRecordsThrottledAlarm (AlarmFactory_addAlarm f) m props None scope0
             = (Inr a0, scope0')"
    and "addPutRecordsThrottledAlarm (AlarmFactory_addAlarm f) m props (Some d) scope1
             = (Inr a1, scope1')"
  shows "metric a1 = metric a0 \<and>
     resolvedThreshold a1 = resolvedThreshold a0 \<and>
     resolvedComparisonOperator a1 = resolvedComparisonOperator a0 \<and>
     resolvedMissingDataPolicy a1 = resolvedMissingDataPolicy a0 \<and>
     description a1 = description a0 \<and>
     dedupeKey a1 = dedupeKey a0 \<and>
     annotationValue (annotation a1) = annotationValue (annotation a0) \<and>
     (isNullish (read props ''alarmNameOverride'') \<and>
      sanitize f (namePrefix f @ ''-PutRecordsThrottled'')
        = namePrefix f @ ''-PutRecordsThrottled'' \<and>
      sanitize f (namePrefix f @ ''-PutRecordsThrottled-'' @ d)
        = namePrefix f @ ''-PutRecordsThrottled-'' @ d
      \<longrightarrow> name a1 = name a0 @ ''-'' @ d) \<and>
     (\<not> isNullish (read props ''alarmNameOverride'')
      \<longrightarrow> name a1 = toString (read props ''alarmNameOverride'') \<and> name a1 = name a0)"
proof -
  from throttled_created [OF assms(1)] obtain t0 where
    t0: "read props ''maxRecordsThrottledThreshold'' = Num (Integral t0)"
    and a0: "a0 = resolve f m (putRecordsThrottledAlarmProps props None) (Integral t0)"
    by blast
  from throttled_created [OF assms(2)] obtain t1 where
    t1: "read props ''maxRecordsThrottledThreshold'' = Num (Integral t1)"
    and a1: "a1 = resolve f m (putRecordsThrottledAlarmProps props (Some d)) (Integral t1)"
    by blast
  from t0 t1 have eq: "t1 = t0"
    by simp
  show ?thesis
    unfolding a0 a1 eq
    by (simp add: throttled_resolved_fields throttled_resolved_entries)
qed

theorem disambiguator_changes_name_only_witness:
  "isNullish (read [''maxRecordsThrottledThreshold'' \<mapsto> Num (Integral 50)] ''alarmNameOverride'') \<and>
   name (resolve (exampleFactory ''OrdersStream'') ()
      (putRecordsThrottledAlarmProps
         [''maxRecordsThrottledThreshold'' \<mapsto> Num (Integral 50)] (Some ''shard-0''))
      (Integral 50))
   = ''OrdersStream-PutRecordsThrottled-shard-0'' \<and>
   dedupeKey (resolve (exampleFactory ''OrdersStream'') ()
      (putRecordsThrottledAlarmProps
         [''maxRecordsThrottledThreshold'' \<mapsto> Num (Integral 50)] (Some ''shard-0''))
      (Integral 50))
   = ''PutRecordsThrottled'' \<and>
   \<not> isNullish (read [''maxRecordsThrottledThreshold'' \<mapsto> Num (Integral 50),
                       ''alarmNameOverride'' \<mapsto> Str ''Custom''] ''alarmNameOverride'') \<and>
   name (resolve (exampleFactory ''OrdersStream'') ()
      (putRecordsThrottledAlarmProps
         [''maxRecordsThrottledThreshold'' \<mapsto> Num (Integral 50),
          ''alarmNameOverride'' \<mapsto> Str ''Custom''] (Some ''shard-0''))
      (Integral 50))
   = ''Custom''"
proof -
  let ?p = "[''maxRecordsThrottledThreshold'' \<mapsto> Num (Integral 50)]"
  let ?q = "[''maxRecordsThrottledThreshold'' \<mapsto> Num (Integral 50),
            ''alarmNameOverride'' \<mapsto> Str ''Custom'']"
  let ?f = "exampleFactory ''OrdersStream''"
  let ?a0 = "resolve ?f () (putRecordsThrottledAlarmProps ?p None) (Integral 50)"
  let ?a1 = "resolve ?f () (putRecordsThrottledAlarmProps ?p (Some ''shard-0'')) (Integral 50)"
  let ?b1 = "resolve ?f () (putRecordsThrottledAlarmProps ?q (Some ''shard-0'')) (Integral 50)"
  have h: "isNullish (read ?p ''alarmNameOverride'')"
    by (simp add: read_concrete isNullish_def)
  have k: "isNullish (read ?p ''alarmDedupeStringOverride'')"
    by (simp add: read_concrete isNullish_def)
  have n0: "name ?a0 = ''OrdersStream-PutRecordsThrottled''"
    using h by (simp add: throttled_resolved_fields)
  have d0: "dedupeKey ?a0 = ''PutRecordsThrottled''"
    using k by (simp add: throttled_resolved_fields)
  from disambiguator_changes_name_only
         [OF example_throttled [of "''OrdersStream''" None]
             example_throttled [of "''OrdersStream''" "Some ''shard-0''"]]
  have "dedupeKey ?a1 = dedupeKey ?a0" and "name ?a1 = name ?a0 @ ''-'' @ ''shard-0''"
    using h by simp_all
  then have first: "name ?a1 = ''OrdersStream-PutRecordsThrottled-shard-0''"
    "dedupeKey ?a1 = ''PutRecordsThrottled''"
    using n0 d0 by simp_all
  have g: "\<not> isNullish (read ?q ''alarmNameOverride'')"
    by (simp add: read_concrete isNullish_def)
  have run: "addPutRecordsThrottledAlarm (AlarmFactory_addAlarm ?f) () ?q d []
      = (Inr (resolve ?f () (putRecordsThrottledAlarmProps ?q d) (Integral 50)),
         [resolve ?f () (putRecordsThrottledAlarmProps ?q d) (Integral 50)])" for d
    by (simp add: addPutRecordsThrottledAlarm_def AlarmFactory_addAlarm_def Let_def
          putRecordsThrottled_literal read_literal_constants read_concrete)
  from disambiguator_changes_name_only [OF run [of None] run [of "Some ''shard-0''"]] g
  have "name ?b1 = toString (read ?q ''alarmNameOverride'')"
    by blast
  then have second: "name ?b1 = ''Custom''"
    by (simp add: read_concrete)
  from h g first second show ?thesis
    by blast
qed

text \<open>
  The claim as stated fails for a Specification with an \<open>alarmNameOverride\<close>: the
  disambiguator is not appended, the alarm is named by the override with or without it.
\<close>

theorem disambiguator_counterexample:
  "map_sum id name
     (fst (addPutRecordsThrottledAlarm (AlarmFactory_addAlarm (exampleFactory ''OrdersStream'')) ()
             [''maxRecordsThrottledThreshold'' \<mapsto> Num (Integral 50),
              ''alarmNameOverride'' \<mapsto> Str ''Custom''] None []))
     = Inr ''Custom'' \<and>
   map_sum id name
     (fst (addPutRecordsThrottledAlarm (AlarmFactory_addAlarm (exampleFactory ''OrdersStream'')) ()
             [''maxRecordsThrottledThreshold'' \<mapsto> Num (Integral 50),
              ''alarmNameOverride'' \<mapsto> Str ''Custom''] (Some ''shard-0'') []))
     = Inr ''Custom''"
  by (simp add: addPutRecordsThrottledAlarm_def AlarmFactory_addAlarm_def Let_def
        putRecordsThrottled_literal read_literal_constants read_concrete
        resolve_def resolveName_literal isNullish_def)

lemma literal_invalid:
  "\<not> isFinite t \<Longrightarrow>
   AlarmFactory_addAlarm f m (alarmPropsLiteral p c props d t n e s) scope
     = (Inl InvalidThresholdError, scope)"
  by (rule addAlarm_invalid) (simp add: read_literal_constants)

text \<open>
  Claim C9. A creation request whose threshold is missing or is not a finite number fails
  with \<open>InvalidThresholdError\<close> and leaves the scope as it was: for the factory's \<open>addAlarm\<close>
  on any argument, and for each of the six operations on the kind-specific threshold of
  \<open>props\<close>. A request whose threshold is a finite number in the kind's range and whose
  resolved name is not yet registered in the scope does not fail: the alarm is returned and
  is the one alarm added to the scope.
\<close>

theorem invalid_threshold_fails_before_registration:
  "(\<not> isFinite (read spec ''threshold'') \<longrightarrow>
      AlarmFactory_addAlarm f m spec scope = (Inl InvalidThresholdError, scope)) \<and>
   (\<not> isFinite (read props ''maxAgeInMillis'') \<longrightarrow>
      addIteratorMaxAgeAlarm (AlarmFactory_addAlarm f) m props d scope
        = (Inl InvalidThresholdError, scope)) \<and>
   (\<not> isFinite (read props ''ageOfRecordThreshold'') \<longrightarrow>
      addOldAgeOfRecordAlarm (AlarmFactory_addAlarm f) m props d scope
        = (Inl InvalidThresholdError, scope)) \<and>
   (\<not> isFinite (read props ''maxRecordsThrottledThreshold'') \<longrightarrow>
      addPutRecordsThrottledAlarm (AlarmFactory_addAlarm f) m props d scope
        = (Inl InvalidThresholdError, scope)) \<and>
   (\<not> isFinite (read props ''maxRecordsFailedThreshold'') \<longrightarrow>
      addPutRecordsFailedAlarm (AlarmFactory_addAlarm f) m props d scope
        = (Inl InvalidThresholdError, scope)) \<and>
   (\<not> isFinite (read props ''maxRecordsThrottledThreshold'') \<longrightarrow>
      addProvisionedReadThroughputExceededAlarm (AlarmFactory_addAlarm f) m props d' scope
        = (Inl InvalidThresholdError, scope)) \<and>
   (\<not> isFinite (read props ''maxRecordsThrottledThreshold'') \<longrightarrow>
      addProvisionedWriteThroughputExceededAlarm (AlarmFactory_addAlarm f) m props d' scope
        = (Inl InvalidThresholdError, scope)) \<and>
   (read spec ''threshold'' = Num (Integral t) \<and> inRange f spec t \<and>
    name (resolve f m spec (Integral t)) \<notin> set (map name scope) \<longrightarrow>
      (\<exists>alarm. AlarmFactory_addAlarm f m spec scope = (Inr alarm, scope @ [alarm]))) \<and>
   (read props ''maxRecordsThrottledThreshold'' = Num (Integral t) \<and>
    inRange f (putRecordsThrottledAlarmProps props d) t \<and>
    name (resolve f m (putRecordsThrottledAlarmProps props d) (Integral t))
      \<notin> set (map name scope) \<longrightarrow>
      (\<exists>alarm. addPutRecordsThrottledAlarm (AlarmFactory_addAlarm f) m props d scope
                 = (Inr alarm, scope @ [alarm])))"
proof (intro conjI impI)
  show "AlarmFactory_addAlarm f m spec scope = (Inl InvalidThresholdError, scope)"
    if "\<not> isFinite (read spec ''threshold'')"
    using that by (rule addAlarm_invalid)
  show "addIteratorMaxAgeAlarm (AlarmFactory_addAlarm f) m props d scope
          = (Inl InvalidThresholdError, scope)"
    if "\<not> isFinite (read props ''maxAgeInMillis'')"
    using that by (simp add: addIteratorMaxAgeAlarm_def iteratorMaxAge_literal literal_invalid)
  show "addOldAgeOfRecordAlarm (AlarmFactory_addAlarm f) m props d scope
          = (Inl InvalidThresholdError, scope)"
    if "\<not> isFinite (read props ''ageOfRecordThreshold'')"
    using that by (simp add: addOldAgeOfRecordAlarm_def oldAgeOfRecord_literal literal_invalid)
  show "addPutRecordsThrottledAlarm (AlarmFactory_addAlarm f) m props d scope
          = (Inl InvalidThresholdError, scope)"
    if "\<not> isFinite (read props ''maxRecordsThrottledThreshold'')"
    using that
    by (simp add: addPutRecordsThrottledAlarm_def putRecordsThrottled_literal literal_invalid)
  show "addPutRecordsFailedAlarm (AlarmFactory_addAlarm f) m props d scope
          = (Inl InvalidThresholdError, scope)"
    if "\<not> isFinite (read props ''maxRecordsFailedThreshold'')"
    using that
    by (simp add: addPutRecordsFailedAlarm_def putRecordsFailed_literal literal_invalid)
  show "addProvisionedReadThroughputExceededAlarm (AlarmFactory_addAlarm f) m props d' scope
          = (Inl InvalidThresholdError, scope)"
    if "\<not> isFinite (read props ''maxRecordsThrottledThreshold'')"
    using that
    by (simp add: addProvisionedReadThroughputExceededAlarm_def provisionedRead_literal
          literal_invalid)
  show "addProvisionedWriteThroughputExceededAlarm (AlarmFactory_addAlarm f) m props d' scope
          = (Inl InvalidThresholdError, scope)"
    if "\<not> isFinite (read props ''maxRecordsThrottledThreshold'')"
    using that
    by (simp add: addProvisionedWriteThroughputExceededAlarm_def provisionedWrite_literal
          literal_invalid)
  show "\<exists>alarm. AlarmFactory_addAlarm f m spec scope = (Inr alarm, scope @ [alarm])"
    if "read spec ''threshold'' = Num (Integral t) \<and> inRange f spec t \<and>
        name (resolve f m spec (Integral t)) \<notin> set (map name scope)"
    using that addAlarm_valid [of spec t f m scope] by blast
  show "\<exists>alarm. addPutRecordsThrottledAlarm (AlarmFactory_addAlarm f) m props d scope
                 = (Inr alarm, scope @ [alarm])"
    if h: "read props ''maxRecordsThrottledThreshold'' = Num (Integral t) \<and>
        inRange f (putRecordsThrottledAlarmProps props d) t \<and>
        name (resolve f m (putRecordsThrottledAlarmProps props d) (Integral t))
          \<notin> set (map name scope)"
  proof -
    have "read (putRecordsThrottledAlarmProps props d) ''threshold'' = Num (Integral t)"
      using h by (simp add: putRecordsThrottled_literal read_literal_constants)
    with h addAlarm_valid [of "putRecordsThrottledAlarmProps props d" t f m scope]
    show ?thesis
      by (simp add: addPutRecordsThrottledAlarm_def)
  qed
qed

theorem invalid_threshold_fails_before_registration_witness:
  "\<not> isFinite (read [''threshold'' \<mapsto> Num NegInfinity] ''threshold'') \<and>
   AlarmFactory_addAlarm (exampleFactory ''OrdersStream'') ()
     [''threshold'' \<mapsto> Num NegInfinity] [exampleThrottled ''a'' 1]
     = (Inl InvalidThresholdError, [exampleThrottled ''a'' 1]) \<and>
   addIteratorMaxAgeAlarm (AlarmFactory_addAlarm (exampleFactory ''OrdersStream'')) ()
     [''maxRecordsThrottledThreshold'' \<mapsto> Num NaN,
      ''maxRecordsFailedThreshold'' \<mapsto> Num PosInfinity,
      ''threshold'' \<mapsto> Num (Integral 50)] None [exampleThrottled ''a'' 1]
     = (Inl InvalidThresholdError, [exampleThrottled ''a'' 1]) \<and>
   addOldAgeOfRecordAlarm (AlarmFactory_addAlarm (exampleFactory ''OrdersStream'')) ()
     [''maxRecordsThrottledThreshold'' \<mapsto> Num NaN,
      ''maxRecordsFailedThreshold'' \<mapsto> Num PosInfinity,
      ''threshold'' \<mapsto> Num (Integral 50)] None [exampleThrottled ''a'' 1]
     = (Inl InvalidThresholdError, [exampleThrottled ''a'' 1]) \<and>
   addPutRecordsThrottledAlarm (AlarmFactory_addAlarm (exampleFactory ''OrdersStream'')) ()
     [''maxRecordsThrottledThreshold'' \<mapsto> Num NaN,
      ''maxRecordsFailedThreshold'' \<mapsto> Num PosInfinity,
      ''threshold'' \<mapsto> Num (Integral 50)] None [exampleThrottled ''a'' 1]
     = (Inl InvalidThresholdError, [exampleThrottled ''a'' 1]) \<and>
   addPutRecordsFailedAlarm (AlarmFactory_addAlarm (exampleFactory ''OrdersStream'')) ()
     [''maxRecordsThrottledThreshold'' \<mapsto> Num NaN,
      ''maxRecordsFailedThreshold'' \<mapsto> Num PosInfinity,
      ''threshold'' \<mapsto> Num (Integral 50)] None [exampleThrottled ''a'' 1]
     = (Inl InvalidThresholdError, [exampleThrottled ''a'' 1]) \<and>
   addProvisionedReadThroughputExceededAlarm
     (AlarmFactory_addAlarm (exampleFactory ''OrdersStream'')) ()
     [''maxRecordsThrottledThreshold'' \<mapsto> Num NaN,
      ''maxRecordsFailedThreshold'' \<mapsto> Num PosInfinity,
      ''threshold'' \<mapsto> Num (Integral 50)] ''r'' [exampleThrottled ''a'' 1]
     = (Inl InvalidThresholdError, [exampleThrottled ''a'' 1]) \<and>
   addProvisionedWriteThroughputExceededAlarm
     (AlarmFactory_addAlarm (exampleFactory ''OrdersStream'')) ()
     [''maxRecordsThrottledThreshold'' \<mapsto> Num NaN,
      ''maxRecordsFailedThreshold'' \<mapsto> Num PosInfinity,
      ''threshold'' \<mapsto> Num (Integral 50)] ''r'' [exampleThrottled ''a'' 1]
     = (Inl InvalidThresholdError, [exampleThrottled ''a'' 1]) \<and>
   (\<exists>alarm.
      AlarmFactory_addAlarm (exampleFactory ''OrdersStream'') ()
        (putRecordsThrottledAlarmProps
           [''maxRecordsThrottledThreshold'' \<mapsto> Num (Integral 50)] None)
        [exampleThrottled ''a'' 1]
        = (Inr alarm, [exampleThrottled ''a'' 1, alarm])) \<and>
   (\<exists>alarm.
      addPutRecordsThrottledAlarm (AlarmFactory_addAlarm (exampleFactory ''OrdersStream'')) ()
        [''maxRecordsThrottledThreshold'' \<mapsto> Num (Integral 50)] None [exampleThrottled ''a'' 1]
        = (Inr alarm, [exampleThrottled ''a'' 1, alarm]))"
proof -
  let ?f = "exampleFactory ''OrdersStream''"
  let ?scope = "[exampleThrottled ''a'' 1]"
  let ?spec = "[''threshold'' \<mapsto> Num NegInfinity]"
  let ?bad = "[''maxRecordsThrottledThreshold'' \<mapsto> Num NaN,
               ''maxRecordsFailedThreshold'' \<mapsto> Num PosInfinity,
               ''threshold'' \<mapsto> Num (Integral 50)]"
  let ?ok = "[''maxRecordsThrottledThreshold'' \<mapsto> Num (Integral 50)]"
  let ?arg = "putRecordsThrottledAlarmProps ?ok None"
  have h0: "\<not> isFinite (read ?spec ''threshold'')"
    by (simp add: read_concrete isFinite_def)
  have h1: "\<not> isFinite (read ?bad ''maxAgeInMillis'')"
    "\<not> isFinite (read ?bad ''ageOfRecordThreshold'')"
    "\<not> isFinite (read ?bad ''maxRecordsThrottledThreshold'')"
    "\<not> isFinite (read ?bad ''maxRecordsFailedThreshold'')"
    by (simp_all add: read_concrete isFinite_def)
  note invalid = invalid_threshold_fails_before_registration
                   [of ?spec ?f "()" ?scope ?bad None "''r''" 50]
  have p: "isNullish (read ?ok ''alarmNameOverride'')"
    by (simp add: read_concrete isNullish_def)
  have h2: "read ?arg ''threshold'' = Num (Integral 50)"
    "read ?ok ''maxRecordsThrottledThreshold'' = Num (Integral 50)"
    "inRange ?f ?arg 50"
    by (simp_all add: putRecordsThrottled_literal read_literal_constants read_concrete)
  have h3: "name (resolve ?f () ?arg (Integral 50)) \<notin> set (map name ?scope)"
    using p by (simp add: throttled_resolved_fields)
  note valid = invalid_threshold_fails_before_registration
                 [of ?arg ?f "()" ?scope ?ok None "''r''" 50]
  from h0 h1 invalid have bad:
    "AlarmFactory_addAlarm ?f () ?spec ?scope = (Inl InvalidThresholdError, ?scope)"
    "addIteratorMaxAgeAlarm (AlarmFactory_addAlarm ?f) () ?bad None ?scope
       = (Inl InvalidThresholdError, ?scope)"
    "addOldAgeOfRecordAlarm (AlarmFactory_addAlarm ?f) () ?bad None ?scope
       = (Inl InvalidThresholdError, ?scope)"
    "addPutRecordsThrottledAlarm (AlarmFactory_addAlarm ?f) () ?bad None ?scope
       = (Inl InvalidThresholdError, ?scope)"
    "addPutRecordsFailedAlarm (AlarmFactory_addAlarm ?f) () ?bad None ?scope
       = (Inl InvalidThresholdError, ?scope)"
    "addProvisionedReadThroughputExceededAlarm (AlarmFactory_addAlarm ?f) () ?bad ''r'' ?scope
       = (Inl InvalidThresholdError, ?scope)"
    "addProvisionedWriteThroughputExceededAlarm (AlarmFactory_addAlarm ?f) () ?bad ''r'' ?scope
       = (Inl InvalidThresholdError, ?scope)"
    by blast+
  from h2 h3 valid have good:
    "\<exists>alarm. AlarmFactory_addAlarm ?f () ?arg ?scope = (Inr alarm, ?scope @ [alarm])"
    "\<exists>alarm. addPutRecordsThrottledAlarm (AlarmFactory_addAlarm ?f) () ?ok None ?scope
               = (Inr alarm, ?scope @ [alarm])"
    by blast+
  from h0 bad good show ?thesis
    by simp
qed

section \<open>Properties of the KinesisFirehoseMonitoring constructor\<close>

lemma throttled_loop:
  "addRecordsThrottledAlarms addAlarm es this s =
     (case inMappingOrder (throttledAlarm addAlarm (throttledRecordsMetric this)) es s of
        (Inl e, s') \<Rightarrow> (Inl e, s')
      | (Inr as, s') \<Rightarrow>
          (Inr (this\<lparr>recordCountAnnotations := recordCountAnnotations this @ map annotation as,
                      alarms := alarms this @ as\<rparr>), s'))"
proof (induction es arbitrary: this s)
  case Nil
  then show ?case by simp
next
  case (Cons entry es)
  obtain disambiguator alarmProps where entry: "entry = (disambiguator, alarmProps)"
    by (cases entry)
  show ?case
    unfolding entry
    by (simp add: Cons.IH throttledAlarm_def Monitoring_addAlarm_def
             split: prod.splits sum.splits)
qed

lemma freshness_loop:
  "addDeliveryFreshnessAlarms addAlarm es this s =
     (case inMappingOrder (freshnessAlarm addAlarm (maxAgeofRecordsMetric this)) es s of
        (Inl e, s') \<Rightarrow> (Inl e, s')
      | (Inr as, s') \<Rightarrow>
          (Inr (this\<lparr>ageAnnotations := ageAnnotations this @ map annotation as,
                      alarms := alarms this @ as\<rparr>), s'))"
proof (induction es arbitrary: this s)
  case Nil
  then show ?case by simp
next
  case (Cons entry es)
  obtain disambiguator alarmProps where entry: "entry = (disambiguator, alarmProps)"
    by (cases entry)
  show ?case
    unfolding entry
    by (simp add: Cons.IH freshnessAlarm_def Monitoring_addAlarm_def
             split: prod.splits sum.splits)
qed

lemma constructor_runs:
  "KinesisFirehoseMonitoring_constructor addAlarm tm fm props s =
     (case inMappingOrder (throttledAlarm addAlarm tm) (entries (addRecordsThrottledAlarm props)) s of
        (Inl e, s1) \<Rightarrow> (Inl e, s1, [])
      | (Inr ts, s1) \<Rightarrow>
          (case inMappingOrder (freshnessAlarm addAlarm fm)
                  (entries (addDeliveryFreshnessAlarm props)) s1 of
             (Inl e, s2) \<Rightarrow> (Inl e, s2, [])
           | (Inr fs, s2) \<Rightarrow>
               (Inr \<lparr> recordCountAnnotations = map annotation ts,
                      ageAnnotations = map annotation fs,
                      throttledRecordsMetric = tm,
                      maxAgeofRecordsMetric = fm,
                      alarms = ts @ fs \<rparr>,
                s2,
                case useCreatedAlarms props of
                  None \<Rightarrow> []
                | Some consumer \<Rightarrow> [(consumer, ts @ fs)])))"
  by (simp add: KinesisFirehoseMonitoring_constructor_def throttled_loop freshness_loop
        createdAlarms_def
      split: prod.splits sum.splits option.splits)

lemma inMappingOrder_length:
  "inMappingOrder create xs s = (Inr ys, s') \<Longrightarrow> length ys = length xs"
  by (induction xs arbitrary: s ys) (auto split: prod.splits sum.splits)

lemma throttled_loop_appends:
  assumes "addRecordsThrottledAlarms addAlarm es u s = (Inr u', s')"
  shows "prefix (recordCountAnnotations u) (recordCountAnnotations u') \<and>
         ageAnnotations u' = ageAnnotations u"
  using assms unfolding throttled_loop
  by (auto split: prod.splits sum.splits)

lemma freshness_loop_appends:
  assumes "addDeliveryFreshnessAlarms addAlarm es u s = (Inr u', s')"
  shows "prefix (ageAnnotations u) (ageAnnotations u') \<and>
         recordCountAnnotations u' = recordCountAnnotations u"
  using assms unfolding freshness_loop
  by (auto split: prod.splits sum.splits)

text \<open>
  Claim C7. After a construction that succeeds, \<open>recordCountAnnotations\<close> holds exactly the
  annotations of the records-throttled alarms, one per entry of \<open>addRecordsThrottledAlarm\<close>
  and in the order of the mapping, and \<open>ageAnnotations\<close> holds exactly those of the
  delivery-freshness alarms, one per entry of \<open>addDeliveryFreshnessAlarm\<close> and in the order
  of the mapping. During construction each loop only appends to its own collection (the
  collection before is a prefix of the collection after) and leaves the other family's
  collection as it was.
\<close>

theorem annotations_per_family:
  "(KinesisFirehoseMonitoring_constructor addAlarm tm fm props s = (Inr this, s', calls) \<longrightarrow>
      (\<exists>ts fs s1.
         inMappingOrder (throttledAlarm addAlarm tm) (entries (addRecordsThrottledAlarm props)) s
           = (Inr ts, s1) \<and>
         inMappingOrder (freshnessAlarm addAlarm fm) (entries (addDeliveryFreshnessAlarm props)) s1
           = (Inr fs, s') \<and>
         recordCountAnnotations this = map annotation ts \<and>
         length ts = length (entries (addRecordsThrottledAlarm props)) \<and>
         ageAnnotations this = map annotation fs \<and>
         length fs = length (entries (addDeliveryFreshnessAlarm props)))) \<and>
   (addRecordsThrottledAlarms addAlarm es u s0 = (Inr u1, s1) \<longrightarrow>
      prefix (recordCountAnnotations u) (recordCountAnnotations u1) \<and>
      ageAnnotations u1 = ageAnnotations u) \<and>
   (addDeliveryFreshnessAlarms addAlarm es u s0 = (Inr u2, s2) \<longrightarrow>
      prefix (ageAnnotations u) (ageAnnotations u2) \<and>
      recordCountAnnotations u2 = recordCountAnnotations u)"
proof (intro conjI impI)
  assume run: "KinesisFirehoseMonitoring_constructor addAlarm tm fm props s = (Inr this, s', calls)"
  let ?E1 = "entries (addRecordsThrottledAlarm props)"
  let ?E2 = "entries (addDeliveryFreshnessAlarm props)"
  from run obtain ts s1 where
    r1: "inMappingOrder (throttledAlarm addAlarm tm) ?E1 s = (Inr ts, s1)"
    unfolding constructor_runs by (auto split: prod.splits sum.splits)
  from run r1 obtain fs where
    r2: "inMappingOrder (freshnessAlarm addAlarm fm) ?E2 s1 = (Inr fs, s')"
    unfolding constructor_runs by (auto split: prod.splits sum.splits)
  from run r1 r2 have
    "recordCountAnnotations this = map annotation ts" "ageAnnotations this = map annotation fs"
    unfolding constructor_runs by auto
  with r1 r2 inMappingOrder_length [OF r1] inMappingOrder_length [OF r2]
  show "\<exists>ts fs s1.
         inMappingOrder (throttledAlarm addAlarm tm) ?E1 s = (Inr ts, s1) \<and>
         inMappingOrder (freshnessAlarm addAlarm fm) ?E2 s1 = (Inr fs, s') \<and>
         recordCountAnnotations this = map annotation ts \<and>
         length ts = length ?E1 \<and>
         ageAnnotations this = map annotation fs \<and>
         length fs = length ?E2"
    by blast
next
  assume "addRecordsThrottledAlarms addAlarm es u s0 = (Inr u1, s1)"
  from throttled_loop_appends [OF this]
  show "prefix (recordCountAnnotations u) (recordCountAnnotations u1)"
    and "ageAnnotations u1 = ageAnnotations u"
    by simp_all
next
  assume "addDeliveryFreshnessAlarms addAlarm es u s0 = (Inr u2, s2)"
  from freshness_loop_appends [OF this]
  show "prefix (ageAnnotations u) (ageAnnotations u2)"
    and "recordCountAnnotations u2 = recordCountAnnotations u"
    by simp_all
qed

text \<open>
  Claim C8. A construction that fails calls no consumer. A construction that succeeds has
  created the alarms of all records-throttled entries followed by those of all
  delivery-freshness entries; it calls \<^verbatim>\<open>consume\<close> exactly once when \<open>useCreatedAlarms\<close> is
  supplied, with that whole list as the argument, and makes no call when it is not.
\<close>

theorem consumer_invoked_once:
  assumes "KinesisFirehoseMonitoring_constructor addAlarm tm fm props s = (r, s', calls)"
  shows "case r of
      Inl e \<Rightarrow> calls = []
    | Inr this \<Rightarrow>
        (\<exists>ts fs s1.
           inMappingOrder (throttledAlarm addAlarm tm) (entries (addRecordsThrottledAlarm props)) s
             = (Inr ts, s1) \<and>
           inMappingOrder (freshnessAlarm addAlarm fm) (entries (addDeliveryFreshnessAlarm props)) s1
             = (Inr fs, s') \<and>
           createdAlarms this = ts @ fs) \<and>
        calls = (case useCreatedAlarms props of
                   None \<Rightarrow> []
                 | Some consumer \<Rightarrow> [(consumer, createdAlarms this)])"
  using assms unfolding constructor_runs
  by (auto simp: createdAlarms_def split: prod.splits sum.splits option.splits)

lemma exampleThrottled_step:
  assumes "0 \<le> t" and "name (exampleThrottled d t) \<notin> set (map name scope)"
  shows "throttledAlarm (AlarmFactory_addAlarm (exampleFactory ''OrdersStream'')) ()
           (d, [''maxRecordsThrottledThreshold'' \<mapsto> Num (Integral t)]) scope
         = (Inr (exampleThrottled d t), scope @ [exampleThrottled d t])"
proof -
  let ?spec = "putRecordsThrottledAlarmProps
                 [''maxRecordsThrottledThreshold'' \<mapsto> Num (Integral t)] (Some d)"
  have "read ?spec ''threshold'' = Num (Integral t)"
    by (simp add: putRecordsThrottled_literal read_literal_constants read_concrete)
  moreover have "inRange (exampleFactory ''OrdersStream'') ?spec t"
    using assms(1) by simp
  ultimately show ?thesis
    using assms(2) addAlarm_valid [of ?spec t "exampleFactory ''OrdersStream''" "()" scope]
    by (simp add: throttledAlarm_def addPutRecordsThrottledAlarm_def exampleThrottled_def)
qed

lemma exampleFreshness_step:
  assumes "0 \<le> t" and "name (exampleFreshness d t) \<notin> set (map name scope)"
  shows "freshnessAlarm (AlarmFactory_addAlarm (exampleFactory ''OrdersStream'')) ()
           (d, [''ageOfRecordThreshold'' \<mapsto> Num (Integral t)]) scope
         = (Inr (exampleFreshness d t), scope @ [exampleFreshness d t])"
proof -
  let ?spec = "oldAgeOfRecordAlarmProps [''ageOfRecordThreshold'' \<mapsto> Num (Integral t)] (Some d)"
  have "read ?spec ''threshold'' = Num (Integral t)"
    by (simp add: oldAgeOfRecord_literal read_literal_constants read_concrete)
  moreover have "inRange (exampleFactory ''OrdersStream'') ?spec t"
    using assms(1) by simp
  ultimately show ?thesis
    using assms(2) addAlarm_valid [of ?spec t "exampleFactory ''OrdersStream''" "()" scope]
    by (simp add: freshnessAlarm_def addOldAgeOfRecordAlarm_def exampleFreshness_def)
qed

lemma example_throttled_run:
  "inMappingOrder (throttledAlarm (AlarmFactory_addAlarm (exampleFactory ''OrdersStream'')) ())
     (entries (addRecordsThrottledAlarm (exampleProps consumer))) []
   = (Inr [exampleThrottled ''a'' 1, exampleThrottled ''b'' 2, exampleThrottled ''c'' 3],
      [exampleThrottled ''a'' 1, exampleThrottled ''b'' 2, exampleThrottled ''c'' 3])"
  by (simp add: exampleProps_def entries_def exampleThrottled_step)

lemma example_freshness_run:
  "inMappingOrder (freshnessAlarm (AlarmFactory_addAlarm (exampleFactory ''OrdersStream'')) ())
     (entries (addDeliveryFreshnessAlarm (exampleProps consumer)))
     [exampleThrottled ''a'' 1, exampleThrottled ''b'' 2, exampleThrottled ''c'' 3]
   = (Inr [exampleFreshness ''x'' 900],
      [exampleThrottled ''a'' 1, exampleThrottled ''b'' 2, exampleThrottled ''c'' 3,
       exampleFreshness ''x'' 900])"
  by (simp add: exampleProps_def entries_def exampleFreshness_step)

lemma example_construction:
  "KinesisFirehoseMonitoring_constructor (AlarmFactory_addAlarm (exampleFactory ''OrdersStream''))
     () () (exampleProps consumer) []
   = (Inr \<lparr> recordCountAnnotations =
              map annotation
                [exampleThrottled ''a'' 1, exampleThrottled ''b'' 2, exampleThrottled ''c'' 3],
            ageAnnotations = map annotation [exampleFreshness ''x'' 900],
            throttledRecordsMetric = (),
            maxAgeofRecordsMetric = (),
            alarms = [exampleThrottled ''a'' 1, exampleThrottled ''b'' 2,
                      exampleThrottled ''c'' 3, exampleFreshness ''x'' 900] \<rparr>,
      [exampleThrottled ''a'' 1, exampleThrottled ''b'' 2, exampleThrottled ''c'' 3,
       exampleFreshness ''x'' 900],
      case consumer of
        None \<Rightarrow> []
      | Some c \<Rightarrow> [(c, [exampleThrottled ''a'' 1, exampleThrottled ''b'' 2,
                        exampleThrottled ''c'' 3, exampleFreshness ''x'' 900])])"
  unfolding constructor_runs example_throttled_run prod.case sum.case example_freshness_run
  by (simp add: exampleProps_def split: option.splits)

theorem annotations_per_family_witness:
  "(\<exists>this s' calls.
      KinesisFirehoseMonitoring_constructor (AlarmFactory_addAlarm (exampleFactory ''OrdersStream''))
        () () (exampleProps (Some ''topic'')) [] = (Inr this, s', calls) \<and>
      map annotationValue (recordCountAnnotations this) = [Integral 1, Integral 2, Integral 3] \<and>
      map annotationValue (ageAnnotations this) = [Integral 900]) \<and>
   (\<exists>u1 s1.
      addRecordsThrottledAlarms (AlarmFactory_addAlarm (exampleFactory ''OrdersStream''))
        (entries (addRecordsThrottledAlarm (exampleProps (Some ''topic''))))
        \<lparr> recordCountAnnotations = [annotation (exampleThrottled ''z'' 9)],
          ageAnnotations = [annotation (exampleFreshness ''y'' 8)],
          throttledRecordsMetric = (), maxAgeofRecordsMetric = (), alarms = [] \<rparr> []
        = (Inr u1, s1) \<and>
      prefix [annotation (exampleThrottled ''z'' 9)] (recordCountAnnotations u1) \<and>
      ageAnnotations u1 = [annotation (exampleFreshness ''y'' 8)]) \<and>
   (\<exists>u2 s2.
      addDeliveryFreshnessAlarms (AlarmFactory_addAlarm (exampleFactory ''OrdersStream''))
        (entries (addDeliveryFreshnessAlarm (exampleProps (Some ''topic''))))
        \<lparr> recordCountAnnotations = [annotation (exampleThrottled ''z'' 9)],
          ageAnnotations = [annotation (exampleFreshness ''y'' 8)],
          throttledRecordsMetric = (), maxAgeofRecordsMetric = (), alarms = [] \<rparr>
        [exampleThrottled ''a'' 1, exampleThrottled ''b'' 2, exampleThrottled ''c'' 3]
        = (Inr u2, s2) \<and>
      prefix [annotation (exampleFreshness ''y'' 8)] (ageAnnotations u2) \<and>
      recordCountAnnotations u2 = [annotation (exampleThrottled ''z'' 9)])"
proof -
  let ?f = "AlarmFactory_addAlarm (exampleFactory ''OrdersStream'')"
  let ?props = "exampleProps (Some ''topic'')"
  let ?u = "\<lparr> recordCountAnnotations = [annotation (exampleThrottled ''z'' 9)],
              ageAnnotations = [annotation (exampleFreshness ''y'' 8)],
              throttledRecordsMetric = (), maxAgeofRecordsMetric = (), alarms = [] \<rparr>"
  let ?scope = "[exampleThrottled ''a'' 1, exampleThrottled ''b'' 2, exampleThrottled ''c'' 3]"
  obtain this s' calls where
    run: "KinesisFirehoseMonitoring_constructor ?f () () ?props [] = (Inr this, s', calls)"
    using example_construction [of "Some ''topic''"] by blast
  obtain u1 s1 where
    loop1: "addRecordsThrottledAlarms ?f (entries (addRecordsThrottledAlarm ?props)) ?u []
              = (Inr u1, s1)"
    by (simp add: throttled_loop example_throttled_run)
  obtain u2 s2 where
    loop2: "addDeliveryFreshnessAlarms ?f (entries (addDeliveryFreshnessAlarm ?props)) ?u ?scope
              = (Inr u2, s2)"
    by (simp add: freshness_loop example_freshness_run)
  note claim = annotations_per_family
                 [where addAlarm = ?f and tm = "()" and fm = "()" and props = ?props and s = "[]"
                    and this = this and s' = s' and calls = calls
                    and es = "entries (addRecordsThrottledAlarm ?props)" and u = ?u
                    and ?s0.0 = "[]" and ?u1.0 = u1 and ?s1.0 = s1]
  from run claim obtain ts fs s0 where
    r1: "inMappingOrder (throttledAlarm ?f ()) (entries (addRecordsThrottledAlarm ?props)) []
           = (Inr ts, s0)"
    and r2: "inMappingOrder (freshnessAlarm ?f ()) (entries (addDeliveryFreshnessAlarm ?props)) s0
           = (Inr fs, s')"
    and a1: "recordCountAnnotations this = map annotation ts"
    and a2: "ageAnnotations this = map annotation fs"
    by blast
  from r1 have ts: "ts = [exampleThrottled ''a'' 1, exampleThrottled ''b'' 2, exampleThrottled ''c'' 3]"
    and s0: "s0 = [exampleThrottled ''a'' 1, exampleThrottled ''b'' 2, exampleThrottled ''c'' 3]"
    unfolding example_throttled_run by auto
  from r2 have fs: "fs = [exampleFreshness ''x'' 900]"
    unfolding s0 example_freshness_run by simp
  from run a1 a2 have first:
    "\<exists>this s' calls.
      KinesisFirehoseMonitoring_constructor ?f () () ?props [] = (Inr this, s', calls) \<and>
      map annotationValue (recordCountAnnotations this) = [Integral 1, Integral 2, Integral 3] \<and>
      map annotationValue (ageAnnotations this) = [Integral 900]"
    unfolding ts fs by simp
  from loop1 claim have
    "prefix (recordCountAnnotations ?u) (recordCountAnnotations u1) \<and>
     ageAnnotations u1 = ageAnnotations ?u"
    by blast
  with loop1 have second:
    "\<exists>u1 s1.
      addRecordsThrottledAlarms ?f (entries (addRecordsThrottledAlarm ?props)) ?u [] = (Inr u1, s1) \<and>
      prefix [annotation (exampleThrottled ''z'' 9)] (recordCountAnnotations u1) \<and>
      ageAnnotations u1 = [annotation (exampleFreshness ''y'' 8)]"
    by auto
  from loop2 annotations_per_family
               [where addAlarm = ?f and ?s0.0 = ?scope
                  and es = "entries (addDeliveryFreshnessAlarm ?props)" and u = ?u
                  and ?u2.0 = u2 and ?s2.0 = s2]
  have "prefix (ageAnnotations ?u) (ageAnnotations u2) \<and>
        recordCountAnnotations u2 = recordCountAnnotations ?u"
    by blast
  with loop2 have third:
    "\<exists>u2 s2.
      addDeliveryFreshnessAlarms ?f (entries (addDeliveryFreshnessAlarm ?props)) ?u ?scope
        = (Inr u2, s2) \<and>
      prefix [annotation (exampleFreshness ''y'' 8)] (ageAnnotations u2) \<and>
      recordCountAnnotations u2 = [annotation (exampleThrottled ''z'' 9)]"
    by auto
  from first second third show ?thesis
    by blast
qed

theorem consumer_invoked_once_witness:
  "(\<exists>this s' alarms.
      KinesisFirehoseMonitoring_constructor (AlarmFactory_addAlarm (exampleFactory ''OrdersStream''))
        () () (exampleProps (Some ''topic'')) [] = (Inr this, s', [(''topic'', alarms)]) \<and>
      map name alarms =
        [''OrdersStream-PutRecordsThrottled-a'', ''OrdersStream-PutRecordsThrottled-b'',
         ''OrdersStream-PutRecordsThrottled-c'', ''OrdersStream-Record-Max-Age-x'']) \<and>
   (\<exists>this s'.
      KinesisFirehoseMonitoring_constructor (AlarmFactory_addAlarm (exampleFactory ''OrdersStream''))
        () () (exampleProps (None :: string option)) [] = (Inr this, s', [])) \<and>
   KinesisFirehoseMonitoring_constructor (AlarmFactory_addAlarm (exampleFactory ''OrdersStream''))
     () ()
     \<lparr> addDeliveryFreshnessAlarm = None,
       addRecordsThrottledAlarm = Some [(''a'', Map.empty)],
       useCreatedAlarms = Some ''topic'' \<rparr> []
     = (Inl InvalidThresholdError, [], [])"
proof -
  let ?f = "AlarmFactory_addAlarm (exampleFactory ''OrdersStream'')"
  let ?props = "exampleProps (Some ''topic'')"
  obtain this s' calls where
    run: "KinesisFirehoseMonitoring_constructor ?f () () ?props [] = (Inr this, s', calls)"
    and created: "createdAlarms this =
       [exampleThrottled ''a'' 1, exampleThrottled ''b'' 2, exampleThrottled ''c'' 3,
        exampleFreshness ''x'' 900]"
    using example_construction [of "Some ''topic''"] by (simp add: createdAlarms_def)
  from consumer_invoked_once [OF run]
  have "calls = [(''topic'', createdAlarms this)]"
    by (simp add: exampleProps_def)
  with run created have first:
    "\<exists>this s' alarms.
      KinesisFirehoseMonitoring_constructor ?f () () ?props [] = (Inr this, s', [(''topic'', alarms)]) \<and>
      map name alarms =
        [''OrdersStream-PutRecordsThrottled-a'', ''OrdersStream-PutRecordsThrottled-b'',
         ''OrdersStream-PutRecordsThrottled-c'', ''OrdersStream-Record-Max-Age-x'']"
    by simp
  let ?none = "exampleProps (None :: string option)"
  obtain this0 s0 calls0 where
    run0: "KinesisFirehoseMonitoring_constructor ?f () () ?none [] = (Inr this0, s0, calls0)"
    using example_construction [of "None :: string option"] by simp
  from consumer_invoked_once [OF run0]
  have "calls0 = []"
    by (simp add: exampleProps_def)
  with run0 have second:
    "\<exists>this s'. KinesisFirehoseMonitoring_constructor ?f () () ?none [] = (Inr this, s', [])"
    by blast
  let ?failing = "\<lparr> addDeliveryFreshnessAlarm = None,
                    addRecordsThrottledAlarm = Some [(''a'', Map.empty)],
                    useCreatedAlarms = Some ''topic'' \<rparr>"
  obtain e s2 calls2 where
    run2: "KinesisFirehoseMonitoring_constructor ?f () () ?failing [] = (Inl e, s2, calls2)"
    and err: "e = InvalidThresholdError" and unchanged: "s2 = []"
    by (simp add: constructor_runs entries_def throttledAlarm_def addPutRecordsThrottledAlarm_def
          putRecordsThrottled_literal literal_invalid read_concrete isFinite_def)
  from consumer_invoked_once [OF run2]
  have "calls2 = []"
    by simp
  with run2 err unchanged have third:
    "KinesisFirehoseMonitoring_constructor ?f () () ?failing [] = (Inl InvalidThresholdError, [], [])"
    by simp
  from first second third show ?thesis
    by blast
qed

end
